theory Spec2Isabelle
  imports Main "HOL-Library.AList"
begin

unbundle bit_operations_syntax

section \<open>Python values used by the SDK\<close>

text \<open>
  A Python \<open>str\<close> is a sequence of Unicode code points. It is modelled as a list of
  naturals, so that \<open>encode('utf-8')\<close> and the ASCII test of \<open>hmac.compare_digest\<close>
  can fail where they fail in Python. \<open>u\<close> turns a literal of the theory into such a
  string. A \<open>bytes\<close> object is a list of naturals below 256.
\<close>

type_synonym pystr = "nat list"
type_synonym bytes = "nat list"

definition u :: "string \<Rightarrow> pystr" where
  "u s = map of_char s"

text \<open>
  Arguments are dynamically typed: the annotations of the SDK say \<open>str\<close>, but nothing
  checks them. \<open>PyNone\<close> and \<open>PyInt\<close> stand for the values that are not strings.
\<close>

datatype pyval = PyStr pystr | PyNone | PyInt int

subsection \<open>Exceptions\<close>

text \<open>
  The exception classes that the modelled code can meet, with Python's class hierarchy
  given by the method resolution order of each class. The last six are the classes of
  \<open>exceptions.py\<close>.
\<close>

datatype exn_class =
    BaseException | Exception | KeyboardInterrupt | SystemExit
  | LookupError | KeyError | ValueError | JSONDecodeError | UnicodeError | UnicodeEncodeError
  | TypeError | AttributeError | RuntimeError | RecursionError
  | OSError | RequestException
  | BitFlowError | AuthenticationError | ValidationError | NotFoundError | RateLimitError
  | NetworkError

fun mro :: "exn_class \<Rightarrow> exn_class list" where
  "mro BaseException = [BaseException]"
| "mro Exception = [Exception, BaseException]"
| "mro KeyboardInterrupt = [KeyboardInterrupt, BaseException]"
| "mro SystemExit = [SystemExit, BaseException]"
| "mro LookupError = [LookupError, Exception, BaseException]"
| "mro KeyError = [KeyError, LookupError, Exception, BaseException]"
| "mro ValueError = [ValueError, Exception, BaseException]"
| "mro JSONDecodeError = [JSONDecodeError, ValueError, Exception, BaseException]"
| "mro UnicodeError = [UnicodeError, ValueError, Exception, BaseException]"
| "mro UnicodeEncodeError =
     [UnicodeEncodeError, UnicodeError, ValueError, Exception, BaseException]"
| "mro TypeError = [TypeError, Exception, BaseException]"
| "mro AttributeError = [AttributeError, Exception, BaseException]"
| "mro RuntimeError = [RuntimeError, Exception, BaseException]"
| "mro RecursionError = [RecursionError, RuntimeError, Exception, BaseException]"
| "mro OSError = [OSError, Exception, BaseException]"
| "mro RequestException = [RequestException, OSError, Exception, BaseException]"
| "mro BitFlowError = [BitFlowError, Exception, BaseException]"
| "mro AuthenticationError = [AuthenticationError, BitFlowError, Exception, BaseException]"
| "mro ValidationError = [ValidationError, BitFlowError, Exception, BaseException]"
| "mro NotFoundError = [NotFoundError, BitFlowError, Exception, BaseException]"
| "mro RateLimitError = [RateLimitError, BitFlowError, Exception, BaseException]"
| "mro NetworkError = [NetworkError, BitFlowError, Exception, BaseException]"

text \<open>
  An exception object. \<open>PyExc c s\<close> is an exception of a built-in or library class
  \<open>c\<close> whose \<open>str()\<close> is \<open>s\<close>; the texts that the interpreter and the libraries
  write are abbreviated, the texts that the SDK writes are exact. \<open>BitFlowExc c message code status_code\<close> is an
  instance of \<open>BitFlowError\<close> or of one of its subclasses without further fields;
  \<open>RateLimitExc message code status_code retry_after\<close> is a \<open>RateLimitError\<close>.
\<close>

datatype py_exn =
    PyExc exn_class pystr
  | BitFlowExc exn_class pystr "pystr option" "int option"
  | RateLimitExc pystr "pystr option" "int option" "int option"

fun class_of :: "py_exn \<Rightarrow> exn_class" where
  "class_of (PyExc c s) = c"
| "class_of (BitFlowExc c m k st) = c"
| "class_of (RateLimitExc m k st r) = RateLimitError"

definition isinstance :: "py_exn \<Rightarrow> exn_class \<Rightarrow> bool" where
  "isinstance e c = (c \<in> set (mro (class_of e)))"

text \<open>\<open>BitFlowError.__init__\<close> passes the message to \<open>Exception\<close>, so \<open>str(e)\<close> is the message.\<close>

fun str_of :: "py_exn \<Rightarrow> pystr" where
  "str_of (PyExc c s) = s"
| "str_of (BitFlowExc c m k st) = m"
| "str_of (RateLimitExc m k st r) = m"

fun message :: "py_exn \<Rightarrow> pystr option" where
  "message (PyExc c s) = None"
| "message (BitFlowExc c m k st) = Some m"
| "message (RateLimitExc m k st r) = Some m"

fun code :: "py_exn \<Rightarrow> pystr option" where
  "code (PyExc c s) = None"
| "code (BitFlowExc c m k st) = k"
| "code (RateLimitExc m k st r) = k"

text \<open>The constructors of \<open>exceptions.py\<close>.\<close>

definition new_BitFlowError :: "pystr \<Rightarrow> pystr option \<Rightarrow> int option \<Rightarrow> py_exn" where
  "new_BitFlowError msg cd status = BitFlowExc BitFlowError msg cd status"

definition new_AuthenticationError :: "pystr \<Rightarrow> py_exn" where
  "new_AuthenticationError msg =
     BitFlowExc AuthenticationError msg (Some (u ''AUTHENTICATION_ERROR'')) (Some 401)"

definition new_ValidationError :: "pystr \<Rightarrow> py_exn" where
  "new_ValidationError msg =
     BitFlowExc ValidationError msg (Some (u ''VALIDATION_ERROR'')) (Some 400)"

definition new_NotFoundError :: "pystr \<Rightarrow> py_exn" where
  "new_NotFoundError msg = BitFlowExc NotFoundError msg (Some (u ''NOT_FOUND'')) (Some 404)"

definition new_RateLimitError :: "pystr \<Rightarrow> int option \<Rightarrow> py_exn" where
  "new_RateLimitError msg retry_after =
     RateLimitExc msg (Some (u ''RATE_LIMIT_EXCEEDED'')) (Some 429) retry_after"

definition new_NetworkError :: "pystr \<Rightarrow> py_exn" where
  "new_NetworkError msg = BitFlowExc NetworkError msg (Some (u ''NETWORK_ERROR'')) None"

subsection \<open>UTF-8 encoding\<close>

text \<open>
  \<open>str.encode('utf-8')\<close>: one to four bytes per code point; a surrogate (U+D800 to
  U+DFFF) has no encoding and raises \<open>UnicodeEncodeError\<close>. A Python string holds no value
  above U+10FFFF; the model refuses such a value in the same way.
\<close>

definition encode_char :: "nat \<Rightarrow> bytes option" where
  "encode_char c =
     (if c < 0x80 then Some [c]
      else if c < 0x800 then Some [0xC0 + c div 64, 0x80 + c mod 64]
      else if 0xD800 \<le> c \<and> c \<le> 0xDFFF then None
      else if c < 0x10000 then
        Some [0xE0 + c div 4096, 0x80 + (c div 64) mod 64, 0x80 + c mod 64]
      else if c < 0x110000 then
        Some [0xF0 + c div 262144, 0x80 + (c div 4096) mod 64,
              0x80 + (c div 64) mod 64, 0x80 + c mod 64]
      else None)"

fun encode_utf8 :: "pystr \<Rightarrow> py_exn + bytes" where
  "encode_utf8 [] = Inr []"
| "encode_utf8 (c # cs) =
     (case encode_char c of
        None \<Rightarrow> Inl (PyExc UnicodeEncodeError (u ''surrogates not allowed''))
      | Some bs \<Rightarrow> (case encode_utf8 cs of Inl e \<Rightarrow> Inl e | Inr rest \<Rightarrow> Inr (bs @ rest)))"

text \<open>\<open>x.encode('utf-8')\<close> on a value that may not be a string.\<close>

fun str_encode :: "pyval \<Rightarrow> py_exn + bytes" where
  "str_encode (PyStr s) = encode_utf8 s"
| "str_encode PyNone =
     Inl (PyExc AttributeError (u ''NoneType object has no attribute encode''))"
| "str_encode (PyInt i) =
     Inl (PyExc AttributeError (u ''int object has no attribute encode''))"

section \<open>HMAC-SHA256\<close>

text \<open>
  \<open>hmac.new(key, msg, hashlib.sha256).hexdigest()\<close> is the standard library's HMAC
  (RFC 2104) over SHA-256 (FIPS 180-4). A 32-bit word is a natural below \<open>2 ^ 32\<close>, with
  the wrap-around of addition written out.
\<close>

definition add32 :: "nat \<Rightarrow> nat \<Rightarrow> nat" where
  "add32 x y = (x + y) mod 4294967296"

definition rotr :: "nat \<Rightarrow> nat \<Rightarrow> nat" where
  "rotr n x = x div 2 ^ n + (x mod 2 ^ n) * 2 ^ (32 - n)"

definition not32 :: "nat \<Rightarrow> nat" where
  "not32 x = 4294967295 - x"

definition ch :: "nat \<Rightarrow> nat \<Rightarrow> nat \<Rightarrow> nat" where
  "ch x y z = (x AND y) XOR (not32 x AND z)"

definition maj :: "nat \<Rightarrow> nat \<Rightarrow> nat \<Rightarrow> nat" where
  "maj x y z = (x AND y) XOR (x AND z) XOR (y AND z)"

definition bsig0 :: "nat \<Rightarrow> nat" where
  "bsig0 x = rotr 2 x XOR rotr 13 x XOR rotr 22 x"

definition bsig1 :: "nat \<Rightarrow> nat" where
  "bsig1 x = rotr 6 x XOR rotr 11 x XOR rotr 25 x"

definition ssig0 :: "nat \<Rightarrow> nat" where
  "ssig0 x = rotr 7 x XOR rotr 18 x XOR x div 2 ^ 3"

definition ssig1 :: "nat \<Rightarrow> nat" where
  "ssig1 x = rotr 17 x XOR rotr 19 x XOR x div 2 ^ 10"

definition sha256_k :: "nat list" where
  "sha256_k = [
   1116352408, 1899447441, 3049323471, 3921009573, 961987163, 1508970993, 2453635748, 2870763221,
   3624381080, 310598401, 607225278, 1426881987, 1925078388, 2162078206, 2614888103, 3248222580,
   3835390401, 4022224774, 264347078, 604807628, 770255983, 1249150122, 1555081692, 1996064986,
   2554220882, 2821834349, 2952996808, 3210313671, 3336571891, 3584528711, 113926993, 338241895,
   666307205, 773529912, 1294757372, 1396182291, 1695183700, 1986661051, 2177026350, 2456956037,
   2730485921, 2820302411, 3259730800, 3345764771, 3516065817, 3600352804, 4094571909, 275423344,
   430227734, 506948616, 659060556, 883997877, 958139571, 1322822218, 1537002063, 1747873779,
   1955562222, 2024104815, 2227730452, 2361852424, 2428436474, 2756734187, 3204031479, 3329325298]"

definition sha256_init :: "nat list" where
  "sha256_init = [1779033703, 3144134277, 1013904242, 2773480762,
                  1359893119, 2600822924, 528734635, 1541459225]"

text \<open>Big-endian words of a block of bytes.\<close>

fun be_words :: "bytes \<Rightarrow> nat list" where
  "be_words (a # b # c # d # rest) =
     (a * 16777216 + b * 65536 + c * 256 + d) # be_words rest"
| "be_words bs = []"

text \<open>
  The message schedule is held as the window of its last sixteen words, oldest first:
  the head is the word of the current round.
\<close>

fun next_w :: "nat list \<Rightarrow> nat" where
  "next_w [w0, w1, w2, w3, w4, w5, w6, w7, w8, w9, w10, w11, w12, w13, w14, w15] =
     add32 (add32 (add32 (ssig1 w14) w9) (ssig0 w1)) w0"
| "next_w ws = 0"

fun step :: "nat list \<Rightarrow> nat \<Rightarrow> nat \<Rightarrow> nat list" where
  "step [a, b, c, d, e, f, g, h] k w =
     [add32 (add32 (add32 (add32 (add32 h (bsig1 e)) (ch e f g)) k) w)
            (add32 (bsig0 a) (maj a b c)),
      a, b, c,
      add32 d (add32 (add32 (add32 (add32 h (bsig1 e)) (ch e f g)) k) w),
      e, f, g]"
| "step s k w = s"

fun rounds :: "nat list \<Rightarrow> nat list \<Rightarrow> nat list \<Rightarrow> nat list" where
  "rounds [] ws s = s"
| "rounds (k # ks) ws s = rounds ks (tl ws @ [next_w ws]) (step s k (hd ws))"

definition compress :: "nat list \<Rightarrow> bytes \<Rightarrow> nat list" where
  "compress hs block = map2 add32 hs (rounds sha256_k (be_words block) hs)"

definition be_bytes :: "nat \<Rightarrow> nat \<Rightarrow> bytes" where
  "be_bytes n v = map (\<lambda>i. (v div 256 ^ i) mod 256) (rev [0..<n])"

definition sha256_pad :: "bytes \<Rightarrow> bytes" where
  "sha256_pad m =
     m @ [0x80] @ replicate ((119 - length m mod 64) mod 64) 0 @ be_bytes 8 (8 * length m)"

fun chunks :: "nat \<Rightarrow> 'a list \<Rightarrow> 'a list list" where
  "chunks n [] = []"
| "chunks n (x # xs) =
     (if n = 0 then [x # xs] else take n (x # xs) # chunks n (drop n (x # xs)))"

definition sha256 :: "bytes \<Rightarrow> bytes" where
  "sha256 m =
     concat (map (be_bytes 4) (foldl compress sha256_init (chunks 64 (sha256_pad m))))"

definition hmac_sha256 :: "bytes \<Rightarrow> bytes \<Rightarrow> bytes" where
  "hmac_sha256 key msg =
     (let k0 = (if length key > 64 then sha256 key else key);
          k = k0 @ replicate (64 - length k0) 0
      in sha256 (map (\<lambda>b. b XOR 0x5c) k @ sha256 (map (\<lambda>b. b XOR 0x36) k @ msg)))"

text \<open>\<open>hexdigest()\<close>: two lowercase hexadecimal digits per byte.\<close>

definition hex_digit :: "nat \<Rightarrow> nat" where
  "hex_digit n = (if n < 10 then 48 + n else 87 + n)"

definition hexdigest :: "bytes \<Rightarrow> pystr" where
  "hexdigest bs = concat (map (\<lambda>b. [hex_digit ((b div 16) mod 16), hex_digit (b mod 16)]) bs)"

text \<open>
  \<open>hmac.compare_digest(a, b)\<close> accepts two ASCII-only strings (or two bytes-like
  objects, which do not occur here) and raises \<open>TypeError\<close> on anything else.
\<close>

definition is_ascii :: "pystr \<Rightarrow> bool" where
  "is_ascii s = list_all (\<lambda>c. c < 128) s"

fun compare_digest :: "pyval \<Rightarrow> pyval \<Rightarrow> py_exn + bool" where
  "compare_digest (PyStr a) (PyStr b) =
     (if is_ascii a \<and> is_ascii b then Inr (a = b)
      else Inl (PyExc TypeError
                 (u ''comparing strings with non-ASCII characters is not supported'')))"
| "compare_digest a b =
     Inl (PyExc TypeError (u ''unsupported operand types(s) or combination of types''))"

section \<open>Webhook data\<close>

text \<open>
  The result of \<open>json.loads\<close>. A float is kept as the text of its literal (floating point
  is not modelled); a \<open>dict\<close> is a list of pairs in insertion order with distinct keys.
\<close>

datatype json =
    JNull | JBool bool | JInt int | JFloat pystr | JStr pystr
  | JArr "json list" | JObj "(pystr \<times> json) list"

datatype WebhookEvent =
    STREAM_CREATED | STREAM_CANCELLED | STREAM_COMPLETED
  | SUBSCRIPTION_CREATED | SUBSCRIPTION_CANCELLED | PAYMENT_RECEIVED

fun event_value :: "WebhookEvent \<Rightarrow> pystr" where
  "event_value STREAM_CREATED = u ''stream.created''"
| "event_value STREAM_CANCELLED = u ''stream.cancelled''"
| "event_value STREAM_COMPLETED = u ''stream.completed''"
| "event_value SUBSCRIPTION_CREATED = u ''subscription.created''"
| "event_value SUBSCRIPTION_CANCELLED = u ''subscription.cancelled''"
| "event_value PAYMENT_RECEIVED = u ''payment.received''"

text \<open>The dataclass \<open>WebhookPayload\<close>; its constructor checks no field.\<close>

record webhook_payload =
  wp_id :: json
  wp_event :: WebhookEvent
  wp_data :: json
  wp_timestamp :: json

text \<open>
  A registered callback is a Python callable. It is modelled by an identity and by what
  a call does as far as the handler can see: return (\<open>None\<close>) or raise an exception.
  A callback is taken not to change the registry of the handler that calls it. The
  calls made are recorded, in order, as pairs of the callback's identity and its
  arguments.
\<close>

datatype pyobj = Json json | Payload webhook_payload

record callback =
  cb_id :: nat
  cb_call :: "pyobj list \<Rightarrow> py_exn option"

type_synonym invocation = "nat \<times> pyobj list"

text \<open>The state of a \<open>WebhookHandler\<close>: the secret and the dictionary of handlers.\<close>

record webhook_handler =
  secret :: pyval
  event_handlers :: "pystr \<rightharpoonup> callback"

definition init_handler :: "pyval \<Rightarrow> webhook_handler" where
  "init_handler s = \<lparr>secret = s, event_handlers = Map.empty\<rparr>"

section \<open>The JSON decoder\<close>

text \<open>
  \<open>json.loads\<close> of the standard library, after its decoder: a value is read by
  \<open>scan_once\<close>, which calls the readers of strings, objects, arrays and numbers; all
  its failures are \<open>JSONDecodeError\<close>. The text of the messages is shortened (no line
  and column). The recursion is bounded by a counter that starts high enough for the
  whole input (lemma \<open>json_loads_str_error\<close> below); the interpreter's own recursion
  limit is not modelled.
\<close>

definition decode_error :: "string \<Rightarrow> py_exn" where
  "decode_error msg = PyExc JSONDecodeError (u msg)"

definition is_ws :: "nat \<Rightarrow> bool" where
  "is_ws c = (c = 32 \<or> c = 9 \<or> c = 10 \<or> c = 13)"

definition is_digit :: "nat \<Rightarrow> bool" where
  "is_digit c = (48 \<le> c \<and> c \<le> 57)"

fun skip_ws :: "pystr \<Rightarrow> pystr" where
  "skip_ws [] = []"
| "skip_ws (c # cs) = (if is_ws c then skip_ws cs else c # cs)"

definition hexval :: "nat \<Rightarrow> nat option" where
  "hexval c =
     (if 48 \<le> c \<and> c \<le> 57 then Some (c - 48)
      else if 97 \<le> c \<and> c \<le> 102 then Some (c - 87)
      else if 65 \<le> c \<and> c \<le> 70 then Some (c - 55)
      else None)"

text \<open>The four hexadecimal digits of a \<open>\uXXXX\<close> escape.\<close>

definition decode_uXXXX :: "nat \<Rightarrow> nat \<Rightarrow> nat \<Rightarrow> nat \<Rightarrow> nat option" where
  "decode_uXXXX a b c d =
     (case (hexval a, hexval b, hexval c, hexval d) of
        (Some x, Some y, Some z, Some w) \<Rightarrow> Some (x * 4096 + y * 256 + z * 16 + w)
      | _ \<Rightarrow> None)"

definition backslash :: "nat \<Rightarrow> nat option" where
  "backslash c =
     (if c = 34 then Some 34 else if c = 92 then Some 92 else if c = 47 then Some 47
      else if c = 98 then Some 8 else if c = 102 then Some 12 else if c = 110 then Some 10
      else if c = 114 then Some 13 else if c = 116 then Some 9 else None)"

text \<open>
  After a high surrogate escape: a following low surrogate escape joins it into one
  code point; anything else leaves the high surrogate alone and is read afterwards.
\<close>

definition low_surrogate :: "nat \<Rightarrow> pystr \<Rightarrow> py_exn + nat \<times> pystr" where
  "low_surrogate uni s =
     (case s of
        b # v # l1 # l2 # l3 # l4 # rest \<Rightarrow>
          (if b = 92 \<and> v = 117 then
             (case decode_uXXXX l1 l2 l3 l4 of
                None \<Rightarrow> Inl (decode_error ''Invalid uXXXX escape'')
              | Some uni2 \<Rightarrow>
                 (if 0xDC00 \<le> uni2 \<and> uni2 \<le> 0xDFFF
                  then Inr (0x10000 + (uni - 0xD800) * 1024 + (uni2 - 0xDC00), rest)
                  else Inr (uni, s)))
           else Inr (uni, s))
      | _ \<Rightarrow> Inr (uni, s))"

text \<open>The escape after a backslash: the character it stands for and the rest of the input.\<close>

definition scan_escape :: "pystr \<Rightarrow> py_exn + nat \<times> pystr" where
  "scan_escape s =
     (case s of
        [] \<Rightarrow> Inl (decode_error ''Unterminated string starting at'')
      | e # rest \<Rightarrow>
         (if e \<noteq> 117 then
            (case backslash e of
               None \<Rightarrow> Inl (decode_error ''Invalid escape'')
             | Some x \<Rightarrow> Inr (x, rest))
          else
            (case rest of
               h1 # h2 # h3 # h4 # rest1 \<Rightarrow>
                 (case decode_uXXXX h1 h2 h3 h4 of
                    None \<Rightarrow> Inl (decode_error ''Invalid uXXXX escape'')
                  | Some uni \<Rightarrow>
                     (if 0xD800 \<le> uni \<and> uni \<le> 0xDBFF then low_surrogate uni rest1
                      else Inr (uni, rest1)))
             | _ \<Rightarrow> Inl (decode_error ''Invalid uXXXX escape''))))"

lemma low_surrogate_length: "low_surrogate uni s = Inr (x, r) \<Longrightarrow> length r \<le> length s"
  unfolding low_surrogate_def
  by (simp split: list.splits if_splits option.splits) auto

lemma scan_escape_length: "scan_escape s = Inr (x, r) \<Longrightarrow> length r < length s"
proof (cases s)
  case Nil
  then show "scan_escape s = Inr (x, r) \<Longrightarrow> length r < length s"
    by (simp add: scan_escape_def)
next
  case (Cons e rest)
  assume a: "scan_escape s = Inr (x, r)"
  show "length r < length s"
  proof (cases "e = 117")
    case False
    with a Cons show ?thesis by (auto simp: scan_escape_def split: option.splits)
  next
    case True
    with a Cons obtain h1 h2 h3 h4 rest1 uni where
      r: "rest = h1 # h2 # h3 # h4 # rest1" and
      u: "(if 0xD800 \<le> uni \<and> uni \<le> 0xDBFF then low_surrogate uni rest1 else Inr (uni, rest1))
            = Inr (x, r)"
      by (auto simp: scan_escape_def split: list.splits option.splits)
    from u have "length r \<le> length rest1"
      by (auto split: if_splits dest: low_surrogate_length)
    with r Cons show ?thesis by simp
  qed
qed

text \<open>
  \<open>scanstring\<close> (strict mode) reads a string after its opening quote and returns its
  content and the input after the closing quote.
\<close>

function scanstring :: "pystr \<Rightarrow> pystr \<Rightarrow> py_exn + pystr \<times> pystr" where
  "scanstring acc [] = Inl (decode_error ''Unterminated string starting at'')"
| "scanstring acc (c # rest) =
     (if c = 34 then Inr (acc, rest)
      else if c = 92 then
        (case scan_escape rest of
           Inl e \<Rightarrow> Inl e
         | Inr (x, rest1) \<Rightarrow> scanstring (acc @ [x]) rest1)
      else if c < 32 then Inl (decode_error ''Invalid control character at'')
      else scanstring (acc @ [c]) rest)"
  by pat_completeness auto
termination
  by (relation "measure (\<lambda>(acc, s). length s)") (auto dest: scan_escape_length)

text \<open>
  A number is \<open>-?(0|[1-9][0-9]*)(\.[0-9]+)?([eE][-+]?[0-9]+)?\<close>; with a fraction or an
  exponent it is a float, otherwise an \<open>int\<close>.
\<close>

definition digits_value :: "pystr \<Rightarrow> int" where
  "digits_value ds = foldl (\<lambda>a d. 10 * a + int (d - 48)) 0 ds"

definition match_int :: "pystr \<Rightarrow> (pystr \<times> pystr) option" where
  "match_int s =
     (case s of
        [] \<Rightarrow> None
      | d # ds \<Rightarrow>
         (if d = 48 then Some ([d], ds)
          else if 49 \<le> d \<and> d \<le> 57 then
            Some (d # takeWhile is_digit ds, dropWhile is_digit ds)
          else None))"

definition match_frac :: "pystr \<Rightarrow> pystr \<times> pystr" where
  "match_frac s =
     (case s of
        [] \<Rightarrow> ([], s)
      | d # ds \<Rightarrow>
         (if d = 46 \<and> takeWhile is_digit ds \<noteq> []
          then (d # takeWhile is_digit ds, dropWhile is_digit ds)
          else ([], s)))"

definition match_exp :: "pystr \<Rightarrow> pystr \<times> pystr" where
  "match_exp s =
     (case s of
        [] \<Rightarrow> ([], s)
      | e # es \<Rightarrow>
         (if e = 101 \<or> e = 69 then
            (case es of
               [] \<Rightarrow> ([], s)
             | g # gs \<Rightarrow>
                (if (g = 45 \<or> g = 43) \<and> takeWhile is_digit gs \<noteq> []
                 then (e # g # takeWhile is_digit gs, dropWhile is_digit gs)
                 else if takeWhile is_digit es \<noteq> []
                 then (e # takeWhile is_digit es, dropWhile is_digit es)
                 else ([], s)))
          else ([], s)))"

definition match_number :: "pystr \<Rightarrow> (json \<times> pystr) option" where
  "match_number s =
     (case match_int (if s \<noteq> [] \<and> hd s = 45 then tl s else s) of
        None \<Rightarrow> None
      | Some (ds, r1) \<Rightarrow>
         (case match_frac r1 of
            (fr, r2) \<Rightarrow>
              (case match_exp r2 of
                 (ex, r3) \<Rightarrow>
                   (if fr = [] \<and> ex = [] then
                      Some (JInt (if s \<noteq> [] \<and> hd s = 45 then - digits_value ds
                                  else digits_value ds), r3)
                    else Some (JFloat (take (length s - length r3) s), r3)))))"

text \<open>\<open>dict(pairs)\<close>: a later pair with the same key replaces the value in place.\<close>

definition dict_of :: "(pystr \<times> json) list \<Rightarrow> (pystr \<times> json) list" where
  "dict_of pairs = foldl (\<lambda>d kv. AList.update (fst kv) (snd kv) d) [] pairs"

definition starts_with :: "pystr \<Rightarrow> pystr \<Rightarrow> bool" where
  "starts_with s p = (take (length p) s = p)"

definition scan_constant :: "pystr \<Rightarrow> py_exn + json \<times> pystr" where
  "scan_constant s =
     (if starts_with s (u ''null'') then Inr (JNull, drop 4 s)
      else if starts_with s (u ''true'') then Inr (JBool True, drop 4 s)
      else if starts_with s (u ''false'') then Inr (JBool False, drop 5 s)
      else
        (case match_number s of
           Some r \<Rightarrow> Inr r
         | None \<Rightarrow>
            (if starts_with s (u ''NaN'') then Inr (JFloat (u ''NaN''), drop 3 s)
             else if starts_with s (u ''Infinity'') then Inr (JFloat (u ''Infinity''), drop 8 s)
             else if starts_with s (u ''-Infinity'') then
               Inr (JFloat (u ''-Infinity''), drop 9 s)
             else Inl (decode_error ''Expecting value''))))"

fun scan_once :: "nat \<Rightarrow> pystr \<Rightarrow> py_exn + json \<times> pystr"
  and JSONArray :: "nat \<Rightarrow> json list \<Rightarrow> pystr \<Rightarrow> py_exn + json \<times> pystr"
  and JSONObject :: "nat \<Rightarrow> (pystr \<times> json) list \<Rightarrow> pystr \<Rightarrow> py_exn + json \<times> pystr"
where
  "scan_once 0 s = Inl (PyExc RecursionError (u ''maximum recursion depth exceeded''))"
| "scan_once (Suc n) [] = Inl (decode_error ''Expecting value'')"
| "scan_once (Suc n) (c # cs) =
     (if c = 34 then
        (case scanstring [] cs of Inl e \<Rightarrow> Inl e | Inr (str, rest) \<Rightarrow> Inr (JStr str, rest))
      else if c = 123 then
        (case skip_ws cs of
           [] \<Rightarrow> Inl (decode_error ''Expecting property name enclosed in double quotes'')
         | d # ds \<Rightarrow>
            (if d = 125 then Inr (JObj [], ds)
             else if d = 34 then JSONObject n [] (d # ds)
             else Inl (decode_error ''Expecting property name enclosed in double quotes'')))
      else if c = 91 then
        (case skip_ws cs of
           [] \<Rightarrow> Inl (decode_error ''Expecting value'')
         | d # ds \<Rightarrow> (if d = 93 then Inr (JArr [], ds) else JSONArray n [] (d # ds)))
      else scan_constant (c # cs))"
| "JSONArray 0 acc s = Inl (PyExc RecursionError (u ''maximum recursion depth exceeded''))"
| "JSONArray (Suc n) acc s =
     (case scan_once n s of
        Inl e \<Rightarrow> Inl e
      | Inr (v, rest) \<Rightarrow>
         (case skip_ws rest of
            [] \<Rightarrow> Inl (decode_error ''Expecting , delimiter'')
          | d # ds \<Rightarrow>
             (if d = 93 then Inr (JArr (acc @ [v]), ds)
              else if d = 44 then JSONArray n (acc @ [v]) (skip_ws ds)
              else Inl (decode_error ''Expecting , delimiter''))))"
| "JSONObject 0 acc s = Inl (PyExc RecursionError (u ''maximum recursion depth exceeded''))"
| "JSONObject (Suc n) acc [] =
     Inl (decode_error ''Expecting property name enclosed in double quotes'')"
| "JSONObject (Suc n) acc (q # cs) =
     (if q \<noteq> 34 then Inl (decode_error ''Expecting property name enclosed in double quotes'')
      else
        (case scanstring [] cs of
           Inl e \<Rightarrow> Inl e
         | Inr (key, r) \<Rightarrow>
            (case skip_ws r of
               [] \<Rightarrow> Inl (decode_error ''Expecting : delimiter'')
             | d # ds \<Rightarrow>
                (if d \<noteq> 58 then Inl (decode_error ''Expecting : delimiter'')
                 else
                   (case scan_once n (skip_ws ds) of
                      Inl e \<Rightarrow> Inl e
                    | Inr (v, r3) \<Rightarrow>
                       (case skip_ws r3 of
                          [] \<Rightarrow> Inl (decode_error ''Expecting , delimiter'')
                        | x # xs \<Rightarrow>
                           (if x = 125 then Inr (JObj (dict_of (acc @ [(key, v)])), xs)
                            else if x = 44 then
                              (case skip_ws xs of
                                 [] \<Rightarrow> Inl (decode_error
                                        ''Expecting property name enclosed in double quotes'')
                               | y # ys \<Rightarrow>
                                  (if y = 34 then JSONObject n (acc @ [(key, v)]) (y # ys)
                                   else Inl (decode_error
                                        ''Expecting property name enclosed in double quotes'')))
                            else Inl (decode_error ''Expecting , delimiter''))))))))"

fun fuel_of :: "pystr \<Rightarrow> nat" where
  "fuel_of [] = Suc (Suc 0)"
| "fuel_of (c # cs) = Suc (Suc (fuel_of cs))"

definition decode :: "pystr \<Rightarrow> py_exn + json" where
  "decode s =
     (case scan_once (fuel_of s) (skip_ws s) of
        Inl e \<Rightarrow> Inl e
      | Inr (obj, rest) \<Rightarrow>
         (if skip_ws rest = [] then Inr obj else Inl (decode_error ''Extra data'')))"

fun json_loads :: "pyval \<Rightarrow> py_exn + json" where
  "json_loads (PyStr s) =
     (if starts_with s [0xFEFF] then Inl (decode_error ''Unexpected UTF-8 BOM (decode using utf-8-sig)'')
      else decode s)"
| "json_loads PyNone =
     Inl (PyExc TypeError (u ''the JSON object must be str, bytes or bytearray, not NoneType''))"
| "json_loads (PyInt i) =
     Inl (PyExc TypeError (u ''the JSON object must be str, bytes or bytearray, not int''))"

section \<open>Signature verification\<close>

text \<open>The body of the \<open>try\<close> block of \<open>verify_signature\<close>.\<close>

definition verify_signature_try :: "webhook_handler \<Rightarrow> pyval \<Rightarrow> pyval \<Rightarrow> py_exn + bool" where
  "verify_signature_try self payload signature =
     (case str_encode (secret self) of
        Inl e \<Rightarrow> Inl e
      | Inr key \<Rightarrow>
         (case str_encode payload of
            Inl e \<Rightarrow> Inl e
          | Inr msg \<Rightarrow> compare_digest signature (PyStr (hexdigest (hmac_sha256 key msg)))))"

text \<open>\<open>except Exception: return False\<close> catches the instances of \<open>Exception\<close> only.\<close>

definition verify_signature :: "webhook_handler \<Rightarrow> pyval \<Rightarrow> pyval \<Rightarrow> py_exn + bool" where
  "verify_signature self payload signature =
     (case verify_signature_try self payload signature of
        Inl e \<Rightarrow> (if isinstance e Exception then Inr False else Inl e)
      | Inr b \<Rightarrow> Inr b)"

text \<open>
  The signature that the specification asks for: the lowercase hexadecimal HMAC-SHA256
  of the payload's UTF-8 bytes under the secret's UTF-8 bytes. There is none when the
  secret or the payload is not a string with a UTF-8 encoding.
\<close>

definition expected_signature :: "pyval \<Rightarrow> pyval \<Rightarrow> pystr option" where
  "expected_signature s p =
     (case (str_encode s, str_encode p) of
        (Inr key, Inr msg) \<Rightarrow> Some (hexdigest (hmac_sha256 key msg))
      | _ \<Rightarrow> None)"

section \<open>Processing a webhook\<close>

text \<open>
  \<open>webhook_data[key]\<close> with a string key. Only a \<open>dict\<close> can be indexed by a string:
  a missing key raises \<open>KeyError\<close>, whose \<open>str()\<close> is the quoted key, and every other
  JSON value raises \<open>TypeError\<close>.
\<close>

definition quoted :: "pystr \<Rightarrow> pystr" where
  "quoted k = [39] @ k @ [39]"

fun getitem :: "json \<Rightarrow> pystr \<Rightarrow> py_exn + json" where
  "getitem (JObj d) k =
     (case map_of d k of
        None \<Rightarrow> Inl (PyExc KeyError (quoted k))
      | Some v \<Rightarrow> Inr v)"
| "getitem (JArr xs) k =
     Inl (PyExc TypeError (u ''list indices must be integers or slices, not str''))"
| "getitem (JStr s) k = Inl (PyExc TypeError (u ''string indices must be integers''))"
| "getitem JNull k = Inl (PyExc TypeError (u ''NoneType object is not subscriptable''))"
| "getitem (JBool b) k = Inl (PyExc TypeError (u ''bool object is not subscriptable''))"
| "getitem (JInt i) k = Inl (PyExc TypeError (u ''int object is not subscriptable''))"
| "getitem (JFloat f) k = Inl (PyExc TypeError (u ''float object is not subscriptable''))"

text \<open>
  \<open>WebhookEvent(value)\<close>: the member whose value equals the argument, or \<open>ValueError\<close>.
  The members are strings, so only a JSON string can equal one.
\<close>

definition all_events :: "WebhookEvent list" where
  "all_events = [STREAM_CREATED, STREAM_CANCELLED, STREAM_COMPLETED,
                 SUBSCRIPTION_CREATED, SUBSCRIPTION_CANCELLED, PAYMENT_RECEIVED]"

fun new_WebhookEvent :: "json \<Rightarrow> py_exn + WebhookEvent" where
  "new_WebhookEvent (JStr s) =
     (case find (\<lambda>e. event_value e = s) all_events of
        None \<Rightarrow> Inl (PyExc ValueError (u ''not a valid WebhookEvent''))
      | Some e \<Rightarrow> Inr e)"
| "new_WebhookEvent v = Inl (PyExc ValueError (u ''not a valid WebhookEvent''))"

text \<open>Lines 62 to 68: parsing the body and building the envelope, field by field.\<close>

definition parse_payload :: "pyval \<Rightarrow> py_exn + webhook_payload" where
  "parse_payload payload =
     (case json_loads payload of Inl e \<Rightarrow> Inl e | Inr webhook_data \<Rightarrow>
     (case getitem webhook_data (u ''id'') of Inl e \<Rightarrow> Inl e | Inr i \<Rightarrow>
     (case getitem webhook_data (u ''event'') of Inl e \<Rightarrow> Inl e | Inr ev \<Rightarrow>
     (case new_WebhookEvent ev of Inl e \<Rightarrow> Inl e | Inr event \<Rightarrow>
     (case getitem webhook_data (u ''data'') of Inl e \<Rightarrow> Inl e | Inr d \<Rightarrow>
     (case getitem webhook_data (u ''timestamp'') of Inl e \<Rightarrow> Inl e | Inr t \<Rightarrow>
        Inr \<lparr>wp_id = i, wp_event = event, wp_data = d, wp_timestamp = t\<rparr>))))))"

text \<open>
  Lines 76 to 80: the generic handler, then \<open>return True\<close>. \<open>tr\<close> holds the calls
  made so far.
\<close>

definition dispatch_generic ::
  "webhook_handler \<Rightarrow> webhook_payload \<Rightarrow> invocation list \<Rightarrow> (py_exn + bool) \<times> invocation list" where
  "dispatch_generic self wp tr =
     (case event_handlers self (u ''webhook'') of
        None \<Rightarrow> (Inr True, tr)
      | Some g \<Rightarrow>
         (case cb_call g [Payload wp] of
            Some e \<Rightarrow> (Inl e, tr @ [(cb_id g, [Payload wp])])
          | None \<Rightarrow> (Inr True, tr @ [(cb_id g, [Payload wp])])))"

text \<open>Lines 70 to 80: the handler of the event, then the generic one.\<close>

definition dispatch ::
  "webhook_handler \<Rightarrow> webhook_payload \<Rightarrow> (py_exn + bool) \<times> invocation list" where
  "dispatch self wp =
     (case event_handlers self (event_value (wp_event wp)) of
        None \<Rightarrow> dispatch_generic self wp []
      | Some h \<Rightarrow>
         (case cb_call h [Json (wp_data wp), Payload wp] of
            Some e \<Rightarrow> (Inl e, [(cb_id h, [Json (wp_data wp), Payload wp])])
          | None \<Rightarrow> dispatch_generic self wp [(cb_id h, [Json (wp_data wp), Payload wp])]))"

text \<open>The body of the \<open>try\<close> block of \<open>process_webhook\<close> (lines 62 to 80).\<close>

definition process_webhook_try ::
  "webhook_handler \<Rightarrow> pyval \<Rightarrow> (py_exn + bool) \<times> invocation list" where
  "process_webhook_try self payload =
     (case parse_payload payload of
        Inl e \<Rightarrow> (Inl e, [])
      | Inr wp \<Rightarrow> dispatch self wp)"

text \<open>
  \<open>process_webhook\<close>: the result is the return value or the exception raised, together
  with the calls of callbacks made on the way.
\<close>

definition process_webhook ::
  "webhook_handler \<Rightarrow> pyval \<Rightarrow> pyval \<Rightarrow> (py_exn + bool) \<times> invocation list" where
  "process_webhook self payload signature =
     (case verify_signature self payload signature of
        Inl e \<Rightarrow> (Inl e, [])
      | Inr ok \<Rightarrow>
         (if \<not> ok then
            (Inl (new_BitFlowError (u ''Invalid webhook signature'')
                    (Some (u ''INVALID_SIGNATURE'')) None), [])
          else
            (case process_webhook_try self payload of
               (Inr b, tr) \<Rightarrow> (Inr b, tr)
             | (Inl e, tr) \<Rightarrow>
                (if isinstance e JSONDecodeError \<or> isinstance e KeyError \<or> isinstance e ValueError
                 then (Inl (new_BitFlowError (u ''Invalid webhook payload: '' @ str_of e)
                              (Some (u ''INVALID_PAYLOAD'')) None), tr)
                 else (Inl e, tr)))))"

subsection \<open>Registration\<close>

definition on_event :: "webhook_handler \<Rightarrow> WebhookEvent \<Rightarrow> callback \<Rightarrow> webhook_handler" where
  "on_event self event handler =
     self\<lparr>event_handlers := (event_handlers self)(event_value event \<mapsto> handler)\<rparr>"

definition on_webhook :: "webhook_handler \<Rightarrow> callback \<Rightarrow> webhook_handler" where
  "on_webhook self handler =
     self\<lparr>event_handlers := (event_handlers self)(u ''webhook'' \<mapsto> handler)\<rparr>"

definition on_stream_created :: "webhook_handler \<Rightarrow> callback \<Rightarrow> webhook_handler" where
  "on_stream_created self handler = on_event self STREAM_CREATED handler"

definition on_stream_cancelled :: "webhook_handler \<Rightarrow> callback \<Rightarrow> webhook_handler" where
  "on_stream_cancelled self handler = on_event self STREAM_CANCELLED handler"

definition on_stream_completed :: "webhook_handler \<Rightarrow> callback \<Rightarrow> webhook_handler" where
  "on_stream_completed self handler = on_event self STREAM_COMPLETED handler"

definition on_subscription_created :: "webhook_handler \<Rightarrow> callback \<Rightarrow> webhook_handler" where
  "on_subscription_created self handler = on_event self SUBSCRIPTION_CREATED handler"

definition on_subscription_cancelled :: "webhook_handler \<Rightarrow> callback \<Rightarrow> webhook_handler" where
  "on_subscription_cancelled self handler = on_event self SUBSCRIPTION_CANCELLED handler"

definition on_payment_received :: "webhook_handler \<Rightarrow> callback \<Rightarrow> webhook_handler" where
  "on_payment_received self handler = on_event self PAYMENT_RECEIVED handler"

subsection \<open>The Flask adapter\<close>

text \<open>
  The view function returned by \<open>flask_handler\<close>. The request is what the view reads
  from it: the value of the header \<open>X-BitFlow-Signature\<close>, if present, and the body as
  text. A response is the JSON object given to \<open>jsonify\<close> and the status. The response
  of the \<open>else\<close> branch (line 146) is a parameter, so that its use can be stated.
\<close>

record flask_request =
  signature_header :: "pystr option"
  body :: pystr

datatype response_json = ErrorJson pystr | ReceivedJson bool

type_synonym flask_response = "response_json \<times> nat"

definition handle_webhook_else ::
  "flask_response \<Rightarrow> webhook_handler \<Rightarrow> flask_request
     \<Rightarrow> (py_exn + flask_response) \<times> invocation list" where
  "handle_webhook_else else_response self request =
     (case signature_header request of
        None \<Rightarrow> (Inr (ErrorJson (u ''Missing signature header''), 400), [])
      | Some signature \<Rightarrow>
         (if signature = [] then (Inr (ErrorJson (u ''Missing signature header''), 400), [])
          else
            (case process_webhook self (PyStr (body request)) (PyStr signature) of
               (Inr success, tr) \<Rightarrow>
                 (if success then (Inr (ReceivedJson True, 200), tr)
                  else (Inr else_response, tr))
             | (Inl e, tr) \<Rightarrow>
                 (if isinstance e BitFlowError then
                    (case message e of
                       Some m \<Rightarrow> (Inr (ErrorJson m, 400), tr)
                     | None \<Rightarrow>
                        (Inl (PyExc AttributeError (u ''object has no attribute message'')), tr))
                  else if isinstance e Exception then
                    (Inr (ErrorJson (u ''Internal server error''), 500), tr)
                  else (Inl e, tr)))))"

definition flask_handler ::
  "webhook_handler \<Rightarrow> flask_request \<Rightarrow> (py_exn + flask_response) \<times> invocation list" where
  "flask_handler = handle_webhook_else (ErrorJson (u ''Webhook processing failed''), 400)"

section \<open>The API client\<close>

subsection \<open>Query parameters of \<open>get_streams\<close>\<close>

datatype StreamStatus = ACTIVE | COMPLETED | CANCELLED

fun status_value :: "StreamStatus \<Rightarrow> pystr" where
  "status_value ACTIVE = u ''active''"
| "status_value COMPLETED = u ''completed''"
| "status_value CANCELLED = u ''cancelled''"

record PaginationOptions =
  limit :: "int option"
  offset :: "int option"

record StreamFilters = PaginationOptions +
  status :: "StreamStatus option"

datatype param_value = PStr pystr | PInt int

text \<open>
  Lines 148 to 155 of \<open>client.py\<close>. Each \<open>if\<close> tests the truth value of the field:
  \<open>None\<close> is false, and so is the integer 0; a member of \<open>StreamStatus\<close> is a non-empty
  string and is true. The dictionary keeps the order of insertion.
\<close>

definition get_streams_params :: "StreamFilters option \<Rightarrow> (pystr \<times> param_value) list" where
  "get_streams_params filters =
     (case filters of
        None \<Rightarrow> []
      | Some f \<Rightarrow>
          (case status f of
             None \<Rightarrow> []
           | Some st \<Rightarrow> (if status_value st \<noteq> [] then [(u ''status'', PStr (status_value st))] else []))
          @ (case limit f of
               None \<Rightarrow> []
             | Some l \<Rightarrow> (if l \<noteq> 0 then [(u ''limit'', PInt l)] else []))
          @ (case offset f of
               None \<Rightarrow> []
             | Some off \<Rightarrow> (if off \<noteq> 0 then [(u ''offset'', PInt off)] else [])))"

text \<open>
  The query string that the HTTP library builds from the parameters: \<open>key=value\<close> joined
  by \<open>&\<close>, an integer in decimal. The values that \<open>get_streams\<close> sends (names of
  statuses and integers) hold no character that is escaped.
\<close>

function nat_digits :: "nat \<Rightarrow> pystr" where
  "nat_digits n = (if n < 10 then [48 + n] else nat_digits (n div 10) @ [48 + n mod 10])"
  by pat_completeness auto
termination
  by (relation "measure (\<lambda>n. n)") auto

definition str_int :: "int \<Rightarrow> pystr" where
  "str_int i = (if i < 0 then 45 # nat_digits (nat (- i)) else nat_digits (nat i))"

fun param_text :: "param_value \<Rightarrow> pystr" where
  "param_text (PStr s) = s"
| "param_text (PInt i) = str_int i"

fun query_string :: "(pystr \<times> param_value) list \<Rightarrow> pystr" where
  "query_string [] = []"
| "query_string [(k, v)] = k @ [61] @ param_text v"
| "query_string ((k, v) # kv # rest) = k @ [61] @ param_text v @ [38] @ query_string (kv # rest)"

subsection \<open>Status codes in \<open>_request\<close>\<close>

text \<open>
  What \<open>_request\<close> sees of a response: the status, the headers (looked up without
  regard to case, so keyed by the lower-case name) and the result of
  \<open>response.json()\<close>. \<open>session.request\<close> either returns a response or raises a
  \<open>RequestException\<close>.
\<close>

record http_response =
  status_code :: int
  headers :: "pystr \<rightharpoonup> pystr"
  json_result :: "py_exn + json"

datatype transport_result = Response http_response | RequestFailed pystr

definition lower :: "pystr \<Rightarrow> pystr" where
  "lower s = map (\<lambda>c. if 65 \<le> c \<and> c \<le> 90 then c + 32 else c) s"

definition headers_get :: "http_response \<Rightarrow> pystr \<Rightarrow> pystr option" where
  "headers_get r name = headers r (lower name)"

text \<open>
  \<open>int(s)\<close> for a string: surrounding white space is dropped, then an optional sign and
  decimal digits, which single underscores may separate; anything else raises
  \<open>ValueError\<close>. A header value is Latin-1 text, where the digits are \<open>0\<close> to \<open>9\<close>.
\<close>

definition is_space :: "nat \<Rightarrow> bool" where
  "is_space c = ((9 \<le> c \<and> c \<le> 13) \<or> (28 \<le> c \<and> c \<le> 32) \<or> c = 133 \<or> c = 160)"

definition strip :: "pystr \<Rightarrow> pystr" where
  "strip s = rev (dropWhile is_space (rev (dropWhile is_space s)))"

fun int_digits :: "pystr \<Rightarrow> pystr option" where
  "int_digits [] = None"
| "int_digits [c] = (if is_digit c then Some [c] else None)"
| "int_digits (c # d # r) =
     (if \<not> is_digit c then None
      else if d = 95 then
        (case int_digits r of None \<Rightarrow> None | Some ds \<Rightarrow> Some (c # ds))
      else (case int_digits (d # r) of None \<Rightarrow> None | Some ds \<Rightarrow> Some (c # ds)))"

definition py_int :: "pystr \<Rightarrow> py_exn + int" where
  "py_int s =
     (case strip s of
        [] \<Rightarrow> Inl (PyExc ValueError (u ''invalid literal for int() with base 10''))
      | c # r \<Rightarrow>
         (case int_digits (if c = 45 \<or> c = 43 then r else c # r) of
            None \<Rightarrow> Inl (PyExc ValueError (u ''invalid literal for int() with base 10''))
          | Some ds \<Rightarrow> Inr (if c = 45 then - digits_value ds else digits_value ds)))"

text \<open>\<open>d.get(key, default)\<close> on what should be a dictionary.\<close>

fun dict_get :: "json \<Rightarrow> pystr \<Rightarrow> json \<Rightarrow> py_exn + json" where
  "dict_get (JObj d) k dflt = (case map_of d k of None \<Rightarrow> Inr dflt | Some v \<Rightarrow> Inr v)"
| "dict_get v k dflt = Inl (PyExc AttributeError (u ''object has no attribute get''))"

text \<open>
  \<open>response.json().get("error", {}).get(key, default)\<close>. The exceptions of this model
  carry text: of a message or code that is not a JSON string only the absence of text
  is kept.
\<close>

definition error_field :: "http_response \<Rightarrow> pystr \<Rightarrow> json \<Rightarrow> py_exn + json" where
  "error_field r k dflt =
     (case json_result r of
        Inl e \<Rightarrow> Inl e
      | Inr j \<Rightarrow>
         (case dict_get j (u ''error'') (JObj []) of
            Inl e \<Rightarrow> Inl e
          | Inr error_data \<Rightarrow> dict_get error_data k dflt))"

fun text_of :: "json \<Rightarrow> pystr option" where
  "text_of (JStr s) = Some s"
| "text_of v = None"

definition text_or_empty :: "json \<Rightarrow> pystr" where
  "text_or_empty v = (case text_of v of None \<Rightarrow> [] | Some s \<Rightarrow> s)"

text \<open>Lines 94 to 116: the status of the response decides the exception.\<close>

definition handle_status :: "http_response \<Rightarrow> py_exn + json" where
  "handle_status response =
     (if status_code response = 401 then Inl (new_AuthenticationError (u ''Invalid API key''))
      else if status_code response = 400 then
        (case error_field response (u ''message'') (JStr (u ''Bad request'')) of
           Inl e \<Rightarrow> Inl e
         | Inr m \<Rightarrow> Inl (new_ValidationError (text_or_empty m)))
      else if status_code response = 404 then
        (case error_field response (u ''message'') (JStr (u ''Not found'')) of
           Inl e \<Rightarrow> Inl e
         | Inr m \<Rightarrow> Inl (new_NotFoundError (text_or_empty m)))
      else if status_code response = 429 then
        (case headers_get response (u ''Retry-After'') of
           None \<Rightarrow> Inl (new_RateLimitError (u ''Rate limit exceeded'') None)
         | Some retry_after \<Rightarrow>
            (if retry_after = [] then Inl (new_RateLimitError (u ''Rate limit exceeded'') None)
             else
               (case py_int retry_after of
                  Inl e \<Rightarrow> Inl e
                | Inr n \<Rightarrow> Inl (new_RateLimitError (u ''Rate limit exceeded'') (Some n)))))
      else if status_code response \<ge> 400 then
        (case error_field response (u ''message'') (JStr (u ''API request failed'')) of
           Inl e \<Rightarrow> Inl e
         | Inr m \<Rightarrow>
            (case error_field response (u ''code'') JNull of
               Inl e \<Rightarrow> Inl e
             | Inr c \<Rightarrow>
                Inl (new_BitFlowError (text_or_empty m) (text_of c)
                       (Some (status_code response)))))
      else json_result response)"

text \<open>
  \<open>_request\<close>, given what \<open>session.request\<close> did: a \<open>RequestException\<close> from the
  transport or from \<open>response.json()\<close> becomes a \<open>NetworkError\<close>.
\<close>

definition request :: "transport_result \<Rightarrow> py_exn + json" where
  "request t =
     (case t of
        RequestFailed msg \<Rightarrow> Inl (new_NetworkError (u ''Network request failed: '' @ msg))
      | Response response \<Rightarrow>
         (case handle_status response of
            Inl e \<Rightarrow>
              (if isinstance e RequestException
               then Inl (new_NetworkError (u ''Network request failed: '' @ str_of e))
               else Inl e)
          | Inr j \<Rightarrow> Inr j))"

section \<open>Sample data\<close>

text \<open>
  The signature that the remote service sends with a payload, and the handlers, bodies
  and callbacks used to run the model.
\<close>

definition sign :: "pyval \<Rightarrow> pyval \<Rightarrow> pyval" where
  "sign s p = (case expected_signature s p of None \<Rightarrow> PyNone | Some x \<Rightarrow> PyStr x)"

definition returning :: "nat \<Rightarrow> callback" where
  "returning n = \<lparr>cb_id = n, cb_call = (\<lambda>args. None)\<rparr>"

definition raising :: "nat \<Rightarrow> py_exn \<Rightarrow> callback" where
  "raising n e = \<lparr>cb_id = n, cb_call = (\<lambda>args. Some e)\<rparr>"

definition test_secret :: pyval where
  "test_secret = PyStr (u ''test-secret'')"

definition sample_body :: pyval where
  "sample_body = PyStr (u
     ''{\"id\": \"w1\", \"event\": \"stream.created\", \"data\": {\"n\": 1}, \"timestamp\": \"t\"}'')"

definition sample_envelope :: webhook_payload where
  "sample_envelope =
     \<lparr>wp_id = JStr (u ''w1''), wp_event = STREAM_CREATED,
      wp_data = JObj [(u ''n'', JInt 1)], wp_timestamp = JStr (u ''t'')\<rparr>"

section \<open>Properties of signature verification\<close>

text \<open>
  A known answer: the compression of the padded one-block message \<open>abc\<close> is the
  SHA-256 digest \<open>ba7816bf 8f01cfea 414140de 5dae2223 b00361a3 96177a9c b410ff61 f20015ad\<close>.
\<close>

lemma compress_abc:
  "compress sha256_init
     [97, 98, 99, 128, 0, 0, 0, 0, 0, 0, 0, 0, 0, 0, 0, 0,
      0, 0, 0, 0, 0, 0, 0, 0, 0, 0, 0, 0, 0, 0, 0, 0,
      0, 0, 0, 0, 0, 0, 0, 0, 0, 0, 0, 0, 0, 0, 0, 0,
      0, 0, 0, 0, 0, 0, 0, 0, 0, 0, 0, 0, 0, 0, 0, 24]
   = [0xba7816bf, 0x8f01cfea, 0x414140de, 0x5dae2223,
      0xb00361a3, 0x96177a9c, 0xb410ff61, 0xf20015ad]"
  by (simp add: compress_def sha256_k_def sha256_init_def ch_def maj_def bsig0_def bsig1_def
        ssig0_def ssig1_def rotr_def add32_def not32_def)

lemma hex_digit_ascii: "hex_digit (n mod 16) < 128"
proof -
  have "n mod 16 < 16" by simp
  then show ?thesis unfolding hex_digit_def by (cases "n mod 16 < 10") simp_all
qed

lemma hexdigest_ascii: "is_ascii (hexdigest bs)"
  by (induction bs) (simp_all add: hexdigest_def is_ascii_def hex_digit_ascii)

lemma length_hexdigest: "length (hexdigest bs) = 2 * length bs"
  by (induction bs) (simp_all add: hexdigest_def)

lemma str_encode_error: "str_encode v = Inl e \<Longrightarrow> isinstance e Exception"
proof (cases v)
  case (PyStr s)
  have "encode_utf8 s = Inl e \<Longrightarrow> isinstance e Exception" for s
    by (induction s) (auto simp: isinstance_def split: option.splits sum.splits)
  with PyStr show "str_encode v = Inl e \<Longrightarrow> isinstance e Exception" by simp
qed (auto simp: isinstance_def)

lemma compare_digest_error: "compare_digest a b = Inl e \<Longrightarrow> isinstance e Exception"
  by (cases "(a, b)" rule: compare_digest.cases) (auto simp: isinstance_def split: if_splits)

lemma verify_signature_try_error:
  "verify_signature_try self p s = Inl e \<Longrightarrow> isinstance e Exception"
  unfolding verify_signature_try_def
  by (auto split: sum.splits dest: str_encode_error compare_digest_error)

lemma compare_digest_hexdigest:
  "compare_digest s (PyStr (hexdigest bs)) = Inl e \<Longrightarrow> s \<noteq> PyStr (hexdigest bs)"
  by (cases s) (auto simp: hexdigest_ascii split: if_splits)

lemma compare_digest_value:
  "compare_digest s (PyStr (hexdigest bs)) = Inr b \<Longrightarrow> b = (s = PyStr (hexdigest bs))"
  by (cases s) (auto split: if_splits)

lemma verify_signature_expected:
  "verify_signature self payload signature =
     Inr (case expected_signature (secret self) payload of
            None \<Rightarrow> False
          | Some x \<Rightarrow> signature = PyStr x)"
proof (cases "verify_signature_try self payload signature")
  case (Inl e)
  then have "isinstance e Exception" by (rule verify_signature_try_error)
  with Inl have v: "verify_signature self payload signature = Inr False"
    by (simp add: verify_signature_def)
  from Inl show ?thesis unfolding v
    by (auto simp: verify_signature_try_def expected_signature_def
             split: sum.splits dest: compare_digest_hexdigest)
next
  case (Inr b)
  then have v: "verify_signature self payload signature = Inr b"
    by (simp add: verify_signature_def)
  from Inr show ?thesis unfolding v
    by (auto simp: verify_signature_try_def expected_signature_def
             split: sum.splits dest: compare_digest_value)
qed

text \<open>
  C2. \<open>verify_signature\<close> returns true exactly when the signature is the lowercase
  hexadecimal HMAC-SHA256 of the payload under the secret; so it is true on that value
  and false on every other signature.
\<close>

theorem verify_signature_iff_hmac:
  "verify_signature self payload signature =
     Inr (case expected_signature (secret self) payload of
            None \<Rightarrow> False
          | Some x \<Rightarrow> signature = PyStr x)"
  by (rule verify_signature_expected)

theorem verify_signature_iff_hmac_witness:
  "verify_signature (init_handler (PyStr (u ''test-secret''))) (PyStr (u ''{}''))
     (PyStr (hexdigest (hmac_sha256 (u ''test-secret'') (u ''{}'')))) = Inr True
   \<and> verify_signature (init_handler (PyStr (u ''test-secret''))) (PyStr (u ''{}''))
     (PyStr (u ''invalid_signature'')) = Inr False"
proof -
  have k: "str_encode (PyStr (u ''test-secret'')) = Inr (u ''test-secret'')"
    by (simp add: u_def encode_char_def)
  have m: "str_encode (PyStr (u ''{}'')) = Inr (u ''{}'')"
    by (simp add: u_def encode_char_def)
  have e: "expected_signature (secret (init_handler (PyStr (u ''test-secret'')))) (PyStr (u ''{}''))
           = Some (hexdigest (hmac_sha256 (u ''test-secret'') (u ''{}'')))"
    unfolding expected_signature_def init_handler_def using k m by simp
  have "odd (length (u ''invalid_signature''))"
    by (simp add: u_def)
  moreover have "even (length (hexdigest (hmac_sha256 (u ''test-secret'') (u ''{}''))))"
    by (simp add: length_hexdigest)
  ultimately have n: "u ''invalid_signature'' \<noteq> hexdigest (hmac_sha256 (u ''test-secret'') (u ''{}''))"
    by metis
  show ?thesis
    using verify_signature_iff_hmac [of "init_handler (PyStr (u ''test-secret''))" "PyStr (u ''{}'')"]
      e n by simp
qed

text \<open>
  C8. An error inside the verification (a secret or payload that is not a string or has
  no UTF-8 encoding, a signature that \<open>compare_digest\<close> refuses) makes
  \<open>verify_signature\<close> return false; it never raises.
\<close>

theorem verify_signature_fail_closed:
  "(\<exists>b. verify_signature self payload signature = Inr b)
   \<and> (\<forall>e. verify_signature_try self payload signature = Inl e
        \<longrightarrow> verify_signature self payload signature = Inr False)"
  unfolding verify_signature_def
  by (auto split: sum.splits dest: verify_signature_try_error)

theorem verify_signature_fail_closed_witness:
  "verify_signature_try (init_handler PyNone) (PyStr (u ''{}'')) (PyStr (u ''ab''))
     = Inl (PyExc AttributeError (u ''NoneType object has no attribute encode''))
   \<and> verify_signature (init_handler PyNone) (PyStr (u ''{}'')) (PyStr (u ''ab'')) = Inr False
   \<and> verify_signature_try (init_handler (PyStr (u ''k''))) (PyStr [0xD800]) (PyStr (u ''ab''))
     = Inl (PyExc UnicodeEncodeError (u ''surrogates not allowed''))
   \<and> verify_signature (init_handler (PyStr (u ''k''))) (PyStr [0xD800]) (PyStr (u ''ab''))
     = Inr False"
proof -
  have a: "verify_signature_try (init_handler PyNone) (PyStr (u ''{}'')) (PyStr (u ''ab''))
     = Inl (PyExc AttributeError (u ''NoneType object has no attribute encode''))"
    by (simp add: verify_signature_try_def init_handler_def)
  have b: "verify_signature_try (init_handler (PyStr (u ''k''))) (PyStr [0xD800]) (PyStr (u ''ab''))
     = Inl (PyExc UnicodeEncodeError (u ''surrogates not allowed''))"
    by (simp add: verify_signature_try_def init_handler_def u_def encode_char_def)
  show ?thesis
    using a b
      verify_signature_fail_closed [of "init_handler PyNone" "PyStr (u ''{}'')" "PyStr (u ''ab'')"]
      verify_signature_fail_closed [of "init_handler (PyStr (u ''k''))" "PyStr [0xD800]" "PyStr (u ''ab'')"]
    by simp
qed

section \<open>Properties of the JSON decoder\<close>

text \<open>
  The decoder consumes input with every value it reads, so the counter of \<open>scan_once\<close>
  is never used up: every failure of \<open>json.loads\<close> on a string is a \<open>JSONDecodeError\<close>.
\<close>

lemma length_skip_ws: "length (skip_ws s) \<le> length s"
  by (induction s) auto

lemma skip_ws_Cons: "skip_ws s = d # ds \<Longrightarrow> length ds < length s"
  using length_skip_ws [of s] by simp

lemma scanstring_shorter: "scanstring acc s = Inr (str, r) \<Longrightarrow> length r < length s"
proof (induction acc s rule: scanstring.induct)
  case (1 acc)
  then show ?case by simp
next
  case (2 acc c rest)
  show ?case
  proof (cases "c = 34")
    case True
    with 2 show ?thesis by simp
  next
    case False
    show ?thesis
    proof (cases "c = 92")
      case True
      with 2(3) False obtain x rest1 where
        e: "scan_escape rest = Inr (x, rest1)" and
        s: "scanstring (acc @ [x]) rest1 = Inr (str, r)"
        by (auto split: sum.splits)
      from 2(1) [OF False True e refl s] scan_escape_length [OF e]
      show ?thesis by simp
    next
      case c92: False
      with 2(3) False have "\<not> c < 32" and s: "scanstring (acc @ [c]) rest = Inr (str, r)"
        by (auto split: if_splits)
      from 2(2) [OF False c92 this] show ?thesis by simp
    qed
  qed
qed

lemma scan_escape_error: "scan_escape s = Inl e \<Longrightarrow> class_of e = JSONDecodeError"
  unfolding scan_escape_def low_surrogate_def
  by (auto simp: decode_error_def split: list.splits if_splits option.splits)

lemma scanstring_error: "scanstring acc s = Inl e \<Longrightarrow> class_of e = JSONDecodeError"
proof (induction acc s rule: scanstring.induct)
  case (1 acc)
  then show ?case by (auto simp: decode_error_def)
next
  case (2 acc c rest)
  show ?case
  proof (cases "c = 34")
    case True
    with 2 show ?thesis by simp
  next
    case False
    show ?thesis
    proof (cases "c = 92")
      case True
      show ?thesis
      proof (cases "scan_escape rest")
        case (Inl e')
        with 2(3) False True show ?thesis by (auto dest: scan_escape_error)
      next
        case (Inr p)
        obtain x rest1 where p: "p = (x, rest1)" by (cases p)
        with Inr 2(3) False True have "scanstring (acc @ [x]) rest1 = Inl e" by simp
        from 2(1) [OF False True Inr p [symmetric] this] show ?thesis .
      qed
    next
      case c92: False
      show ?thesis
      proof (cases "c < 32")
        case True
        with 2(3) False c92 show ?thesis by (auto simp: decode_error_def)
      next
        case c32: False
        with 2(3) False c92 have "scanstring (acc @ [c]) rest = Inl e" by simp
        from 2(2) [OF False c92 c32 this] show ?thesis .
      qed
    qed
  qed
qed

lemma match_int_length: "match_int s = Some (ds, r) \<Longrightarrow> length r < length s"
  unfolding match_int_def
  by (auto split: list.splits if_splits intro: le_imp_less_Suc length_dropWhile_le)

lemma match_frac_length: "match_frac s = (fr, r) \<Longrightarrow> length r \<le> length s"
  unfolding match_frac_def
  by (auto split: list.splits if_splits intro: le_SucI length_dropWhile_le)

lemma match_exp_length: "match_exp s = (ex, r) \<Longrightarrow> length r \<le> length s"
  unfolding match_exp_def
  by (auto split: list.splits if_splits intro: le_SucI length_dropWhile_le)

lemma match_number_length: "match_number s = Some (v, r) \<Longrightarrow> length r < length s"
proof -
  assume a: "match_number s = Some (v, r)"
  then obtain ds r1 fr r2 ex where
    i: "match_int (if s \<noteq> [] \<and> hd s = 45 then tl s else s) = Some (ds, r1)" and
    f: "match_frac r1 = (fr, r2)" and e: "match_exp r2 = (ex, r)"
    unfolding match_number_def
    by (auto split: option.splits prod.splits if_splits)
  have "length (if s \<noteq> [] \<and> hd s = 45 then tl s else s) \<le> length s" by simp
  with match_int_length [OF i] match_frac_length [OF f] match_exp_length [OF e]
  show ?thesis by linarith
qed

lemma scan_constant_length:
  "s \<noteq> [] \<Longrightarrow> scan_constant s = Inr (v, r) \<Longrightarrow> length r < length s"
  unfolding scan_constant_def
  by (auto split: if_splits option.splits dest: match_number_length)

lemma scan_constant_error: "scan_constant s = Inl e \<Longrightarrow> class_of e = JSONDecodeError"
  unfolding scan_constant_def
  by (auto simp: decode_error_def split: if_splits option.splits)

lemma scan_shorter:
  "scan_once n s = Inr (v, r) \<Longrightarrow> length r < length s"
  "JSONArray n acc s = Inr (v, r) \<Longrightarrow> length r < length s"
  "JSONObject n acc2 s = Inr (v, r) \<Longrightarrow> length r < length s"
proof (induction n s and n acc s and n acc2 s arbitrary: v r and v r and v r
       rule: scan_once_JSONArray_JSONObject.induct)
  case (1 s)
  then show ?case by simp
next
  case (2 n)
  then show ?case by (simp add: decode_error_def)
next
  case (3 n c cs)
  show ?case
  proof (cases "c = 34")
    case True
    with 3(3) obtain str where "scanstring [] cs = Inr (str, r)"
      by (auto split: sum.splits)
    from scanstring_shorter [OF this] show ?thesis by simp
  next
    case c34: False
    show ?thesis
    proof (cases "c = 123")
      case True
      with 3(3) c34 obtain d ds where sk: "skip_ws cs = d # ds"
        and res: "(if d = 125 then Inr (JObj [], ds)
                   else if d = 34 then JSONObject n [] (d # ds)
                   else Inl (decode_error ''Expecting property name enclosed in double quotes''))
                  = Inr (v, r)"
        by (auto split: list.splits)
      show ?thesis
      proof (cases "d = 125")
        case True
        with res skip_ws_Cons [OF sk] show ?thesis by simp
      next
        case False
        with res have d: "d = 34" and j: "JSONObject n [] (d # ds) = Inr (v, r)"
          by (auto split: if_splits)
        from 3(1) [OF c34 True sk False d j] length_skip_ws [of cs] sk
        show ?thesis by simp
      qed
    next
      case c123: False
      show ?thesis
      proof (cases "c = 91")
        case True
        with 3(3) c34 c123 obtain d ds where sk: "skip_ws cs = d # ds"
          and res: "(if d = 93 then Inr (JArr [], ds) else JSONArray n [] (d # ds)) = Inr (v, r)"
          by (auto split: list.splits)
        show ?thesis
        proof (cases "d = 93")
          case True
          with res skip_ws_Cons [OF sk] show ?thesis by simp
        next
          case False
          with res have j: "JSONArray n [] (d # ds) = Inr (v, r)" by simp
          from 3(2) [OF c34 c123 True sk False j] length_skip_ws [of cs] sk
          show ?thesis by simp
        qed
      next
        case False
        with 3(3) c34 c123 have "scan_constant (c # cs) = Inr (v, r)" by simp
        from scan_constant_length [OF _ this] show ?thesis by simp
      qed
    qed
  qed
next
  case (4 acc s)
  then show ?case by simp
next
  case (5 n acc s)
  from 5(3) obtain v1 rest where so: "scan_once n s = Inr (v1, rest)"
    by (auto split: sum.splits)
  with 5(3) obtain d ds where sk: "skip_ws rest = d # ds"
    and res: "(if d = 93 then Inr (JArr (acc @ [v1]), ds)
               else if d = 44 then JSONArray n (acc @ [v1]) (skip_ws ds)
               else Inl (decode_error ''Expecting , delimiter'')) = Inr (v, r)"
    by (auto split: list.splits)
  have l1: "length rest < length s" by (rule 5(1) [OF so])
  have l2: "length ds < length rest" by (rule skip_ws_Cons [OF sk])
  show ?case
  proof (cases "d = 93")
    case True
    with res l1 l2 show ?thesis by simp
  next
    case False
    with res have d: "d = 44" and j: "JSONArray n (acc @ [v1]) (skip_ws ds) = Inr (v, r)"
      by (auto split: if_splits)
    from 5(2) [OF so refl sk False d j] length_skip_ws [of ds] l1 l2
    show ?thesis by simp
  qed
next
  case (6 acc s)
  then show ?case by simp
next
  case (7 n acc)
  then show ?case by (simp add: decode_error_def)
next
  case (8 n acc q cs)
  from 8(3) have q: "q = 34" by (auto split: if_splits)
  with 8(3) obtain key r0 where ss: "scanstring [] cs = Inr (key, r0)"
    by (auto split: sum.splits)
  with 8(3) q obtain d ds where sk: "skip_ws r0 = d # ds" and d: "d = 58"
    by (auto split: list.splits if_splits)
  with 8(3) q ss obtain v1 r3 where so: "scan_once n (skip_ws ds) = Inr (v1, r3)"
    by (auto split: sum.splits)
  with 8(3) q ss sk d obtain x xs where sk3: "skip_ws r3 = x # xs"
    and res: "(if x = 125 then Inr (JObj (dict_of (acc @ [(key, v1)])), xs)
               else if x = 44 then
                 (case skip_ws xs of
                    [] \<Rightarrow> Inl (decode_error ''Expecting property name enclosed in double quotes'')
                  | y # ys \<Rightarrow>
                     (if y = 34 then JSONObject n (acc @ [(key, v1)]) (y # ys)
                      else Inl (decode_error ''Expecting property name enclosed in double quotes'')))
               else Inl (decode_error ''Expecting , delimiter'')) = Inr (v, r)"
    by (auto split: list.splits)
  have l0: "length r0 < length cs" by (rule scanstring_shorter [OF ss])
  have l1: "length ds < length r0" by (rule skip_ws_Cons [OF sk])
  have l2: "length r3 < length (skip_ws ds)"
    using 8(1) [OF _ ss refl sk _ so] q d by simp
  have l3: "length xs < length r3" by (rule skip_ws_Cons [OF sk3])
  have l4: "length (skip_ws ds) \<le> length ds" by (rule length_skip_ws)
  show ?case
  proof (cases "x = 125")
    case True
    with res l0 l1 l2 l3 l4 show ?thesis by simp
  next
    case False
    with res have x: "x = 44" by (auto split: if_splits)
    with res False obtain y ys where sk4: "skip_ws xs = y # ys" and y: "y = 34"
      and j: "JSONObject n (acc @ [(key, v1)]) (y # ys) = Inr (v, r)"
      by (auto split: list.splits if_splits)
    have "length r < length (y # ys)"
      using 8(2) [OF _ ss refl sk _ so refl sk3 False x sk4 y j] q d by simp
    with length_skip_ws [of xs] sk4 l0 l1 l2 l3 l4 show ?thesis by simp
  qed
qed


lemma scan_error:
  "2 * length s + 1 \<le> n \<Longrightarrow> scan_once n s = Inl e \<Longrightarrow> class_of e = JSONDecodeError"
  "2 * length s + 2 \<le> n \<Longrightarrow> JSONArray n acc s = Inl e \<Longrightarrow> class_of e = JSONDecodeError"
  "2 * length s + 2 \<le> n \<Longrightarrow> JSONObject n acc2 s = Inl e \<Longrightarrow> class_of e = JSONDecodeError"
proof (induction n s and n acc s and n acc2 s arbitrary: e and e and e
       rule: scan_once_JSONArray_JSONObject.induct)
  case (1 s)
  then show ?case by simp
next
  case (2 n)
  then show ?case by (auto simp: decode_error_def)
next
  case (3 n c cs)
  from 3(3) have n: "2 * length cs + 2 \<le> n" by simp
  show ?case
  proof (cases "c = 34")
    case True
    with 3(4) have "scanstring [] cs = Inl e" by (auto split: sum.splits)
    then show ?thesis by (rule scanstring_error)
  next
    case c34: False
    show ?thesis
    proof (cases "c = 123")
      case True
      show ?thesis
      proof (cases "skip_ws cs")
        case Nil
        with 3(4) c34 True show ?thesis by (auto simp: decode_error_def)
      next
        case (Cons d ds)
        show ?thesis
        proof (cases "d = 125 \<or> d \<noteq> 34")
          case True
          with 3(4) c34 \<open>c = 123\<close> Cons show ?thesis
            by (auto simp: decode_error_def split: if_splits)
        next
          case False
          then have d125: "d \<noteq> 125" and d34: "d = 34" by auto
          with 3(4) c34 \<open>c = 123\<close> Cons have j: "JSONObject n [] (d # ds) = Inl e" by simp
          have "2 * length (d # ds) + 2 \<le> n"
            using length_skip_ws [of cs] Cons n by simp
          from 3(1) [OF c34 \<open>c = 123\<close> Cons d125 d34 this j] show ?thesis .
        qed
      qed
    next
      case c123: False
      show ?thesis
      proof (cases "c = 91")
        case True
        show ?thesis
        proof (cases "skip_ws cs")
          case Nil
          with 3(4) c34 c123 True show ?thesis by (auto simp: decode_error_def)
        next
          case (Cons d ds)
          show ?thesis
          proof (cases "d = 93")
            case True
            with 3(4) c34 c123 \<open>c = 91\<close> Cons show ?thesis by simp
          next
            case False
            with 3(4) c34 c123 \<open>c = 91\<close> Cons have j: "JSONArray n [] (d # ds) = Inl e" by simp
            have "2 * length (d # ds) + 2 \<le> n"
              using length_skip_ws [of cs] Cons n by simp
            from 3(2) [OF c34 c123 \<open>c = 91\<close> Cons False this j] show ?thesis .
          qed
        qed
      next
        case False
        with 3(4) c34 c123 have "scan_constant (c # cs) = Inl e" by simp
        then show ?thesis by (rule scan_constant_error)
      qed
    qed
  qed
next
  case (4 acc s)
  then show ?case by simp
next
  case (5 n acc s)
  from 5(3) have n: "2 * length s + 1 \<le> n" by simp
  show ?case
  proof (cases "scan_once n s")
    case (Inl e')
    with 5(4) have "e' = e" by simp
    with 5(1) [OF n] Inl show ?thesis by simp
  next
    case (Inr p)
    obtain v1 rest where p: "p = (v1, rest)" by (cases p)
    have so: "scan_once n s = Inr (v1, rest)" using Inr p by simp
    have l1: "length rest < length s" by (rule scan_shorter(1) [OF so])
    show ?thesis
    proof (cases "skip_ws rest")
      case Nil
      with 5(4) so show ?thesis by (auto simp: decode_error_def)
    next
      case (Cons d ds)
      have l2: "length ds < length rest" by (rule skip_ws_Cons [OF Cons])
      show ?thesis
      proof (cases "d = 93 \<or> d \<noteq> 44")
        case True
        with 5(4) so Cons show ?thesis by (auto simp: decode_error_def split: if_splits)
      next
        case False
        then have d93: "d \<noteq> 93" and d44: "d = 44" by auto
        with 5(4) so Cons have j: "JSONArray n (acc @ [v1]) (skip_ws ds) = Inl e" by simp
        have "2 * length (skip_ws ds) + 2 \<le> n"
          using length_skip_ws [of ds] l1 l2 n by simp
        from 5(2) [OF so refl Cons d93 d44 this j] show ?thesis .
      qed
    qed
  qed
next
  case (6 acc s)
  then show ?case by simp
next
  case (7 n acc)
  then show ?case by (auto simp: decode_error_def)
next
  case (8 n acc q cs)
  from 8(3) have n: "2 * length cs + 3 \<le> n" by simp
  show ?case
  proof (cases "q = 34")
    case False
    with 8(4) show ?thesis by (auto simp: decode_error_def)
  next
    case q: True
    then have nq: "\<not> q \<noteq> 34" by simp
    show ?thesis
    proof (cases "scanstring [] cs")
      case (Inl e')
      with 8(4) q have "e' = e" by simp
      with Inl show ?thesis by (auto dest: scanstring_error)
    next
      case (Inr p)
      obtain key r0 where p: "p = (key, r0)" by (cases p)
      have ss: "scanstring [] cs = Inr (key, r0)" using Inr p by simp
      have l0: "length r0 < length cs" by (rule scanstring_shorter [OF ss])
      show ?thesis
      proof (cases "skip_ws r0")
        case Nil
        with 8(4) q ss show ?thesis by (auto simp: decode_error_def)
      next
        case (Cons d ds)
        have l1: "length ds < length r0" by (rule skip_ws_Cons [OF Cons])
        have l4: "length (skip_ws ds) \<le> length ds" by (rule length_skip_ws)
        show ?thesis
        proof (cases "d = 58")
          case False
          with 8(4) q ss Cons show ?thesis by (auto simp: decode_error_def)
        next
          case d: True
          then have nd: "\<not> d \<noteq> 58" by simp
          show ?thesis
          proof (cases "scan_once n (skip_ws ds)")
            case (Inl e')
            with 8(4) q ss Cons d have "e' = e" by simp
            moreover have "2 * length (skip_ws ds) + 1 \<le> n" using l0 l1 l4 n by simp
            ultimately show ?thesis using 8(1) [OF nq ss refl Cons nd _ Inl] by simp
          next
            case (Inr p3)
            obtain v1 r3 where p3: "p3 = (v1, r3)" by (cases p3)
            have so: "scan_once n (skip_ws ds) = Inr (v1, r3)" using Inr p3 by simp
            have l2: "length r3 < length (skip_ws ds)" by (rule scan_shorter(1) [OF so])
            show ?thesis
            proof (cases "skip_ws r3")
              case Nil
              with 8(4) q ss Cons d so show ?thesis by (auto simp: decode_error_def)
            next
              case c3: (Cons x xs)
              have l3: "length xs < length r3" by (rule skip_ws_Cons [OF c3])
              show ?thesis
              proof (cases "x = 125 \<or> x \<noteq> 44")
                case True
                with 8(4) q ss Cons d so c3 show ?thesis
                  by (auto simp: decode_error_def split: if_splits)
              next
                case False
                then have x125: "x \<noteq> 125" and x44: "x = 44" by auto
                show ?thesis
                proof (cases "skip_ws xs")
                  case Nil
                  with 8(4) q ss Cons d so c3 x125 x44 show ?thesis
                    by (auto simp: decode_error_def)
                next
                  case c4: (Cons y ys)
                  show ?thesis
                  proof (cases "y = 34")
                    case False
                    with 8(4) q ss Cons d so c3 x125 x44 c4 show ?thesis
                      by (auto simp: decode_error_def)
                  next
                    case y: True
                    with 8(4) q ss Cons d so c3 x125 x44 c4
                    have j: "JSONObject n (acc @ [(key, v1)]) (y # ys) = Inl e" by simp
                    have "2 * length (y # ys) + 2 \<le> n"
                      using length_skip_ws [of xs] c4 l0 l1 l2 l3 l4 n by simp
                    from 8(2) [OF nq ss refl Cons nd so refl c3 x125 x44 c4 y this j]
                    show ?thesis .
                  qed
                qed
              qed
            qed
          qed
        qed
      qed
    qed
  qed
qed

lemma fuel_of_eq: "fuel_of s = 2 * length s + 2"
  by (induction s) simp_all

lemma decode_error_class: "decode s = Inl e \<Longrightarrow> class_of e = JSONDecodeError"
proof -
  assume a: "decode s = Inl e"
  have n: "2 * length (skip_ws s) + 1 \<le> fuel_of s"
    using length_skip_ws [of s] by (simp add: fuel_of_eq)
  show ?thesis
  proof (cases "scan_once (fuel_of s) (skip_ws s)")
    case (Inl e')
    with a have "e' = e" by (simp add: decode_def)
    with scan_error(1) [OF n Inl] show ?thesis by simp
  next
    case (Inr p)
    with a show ?thesis
      by (cases p) (auto simp: decode_def decode_error_def split: if_splits)
  qed
qed

lemma json_loads_str_error:
  "json_loads (PyStr s) = Inl e \<Longrightarrow> class_of e = JSONDecodeError"
  by (auto simp: decode_error_def split: if_splits dest: decode_error_class)

section \<open>Properties of webhook processing\<close>

lemma event_value_neq_webhook: "event_value e \<noteq> u ''webhook''"
  by (cases e) (simp_all add: u_def)

lemma event_value_inj: "event_value a = event_value b \<Longrightarrow> a = b"
  by (cases a; cases b) (simp_all add: u_def)

lemma encode_utf8_ascii: "is_ascii s \<Longrightarrow> encode_utf8 s = Inr s"
  by (induction s) (simp_all add: is_ascii_def encode_char_def)

lemma verify_signature_sign:
  assumes "expected_signature (secret self) payload = Some x"
  shows "verify_signature self payload (sign (secret self) payload) = Inr True"
  using assms by (simp add: verify_signature_expected sign_def)

lemma verify_signature_odd:
  assumes "odd (length sig)"
  shows "verify_signature self payload (PyStr sig) = Inr False"
proof -
  have "sig \<noteq> hexdigest bs" for bs
  proof
    assume "sig = hexdigest bs"
    then have "even (length sig)" by (simp add: length_hexdigest)
    with assms show False by simp
  qed
  then show ?thesis
    by (auto simp: verify_signature_expected expected_signature_def split: sum.splits)
qed

lemma expected_signature_sample:
  "expected_signature test_secret sample_body \<noteq> None"
proof -
  have "str_encode test_secret = Inr (u ''test-secret'')"
    unfolding test_secret_def str_encode.simps
    by (rule encode_utf8_ascii) (simp add: is_ascii_def u_def)
  moreover have "\<exists>bs. str_encode sample_body = Inr bs"
    unfolding sample_body_def str_encode.simps
    by (rule exI, rule encode_utf8_ascii) (simp add: is_ascii_def u_def)
  ultimately show ?thesis by (auto simp: expected_signature_def)
qed

lemma secret_handlers [simp]:
  "secret (init_handler s) = s"
  "secret (on_event self ev h) = secret self"
  "secret (on_webhook self h) = secret self"
  "secret (on_stream_created self h) = secret self"
  by (simp_all add: init_handler_def on_event_def on_webhook_def on_stream_created_def)

lemma verify_sample:
  "secret self = test_secret \<Longrightarrow>
   verify_signature self sample_body (sign test_secret sample_body) = Inr True"
  using expected_signature_sample verify_signature_sign [of self sample_body] by auto

lemma json_loads_sample:
  "json_loads sample_body =
     Inr (JObj [(u ''id'', JStr (u ''w1'')), (u ''event'', JStr (u ''stream.created'')),
                (u ''data'', JObj [(u ''n'', JInt 1)]), (u ''timestamp'', JStr (u ''t''))])"
  by (simp add: sample_body_def u_def decode_def starts_with_def is_ws_def scan_constant_def
        match_number_def match_int_def match_frac_def match_exp_def is_digit_def
        digits_value_def dict_of_def)

lemma parse_payload_sample: "parse_payload sample_body = Inr sample_envelope"
  unfolding parse_payload_def json_loads_sample
  by (simp add: u_def all_events_def sample_envelope_def)

lemma dispatch_generic_result:
  "dispatch_generic self wp tr = (Inr b, tr') \<Longrightarrow> b"
  by (auto simp: dispatch_generic_def split: option.splits)

lemma dispatch_result: "dispatch self wp = (Inr b, tr) \<Longrightarrow> b"
  by (auto simp: dispatch_def split: option.splits dest: dispatch_generic_result)

lemma process_webhook_try_result: "process_webhook_try self payload = (Inr b, tr) \<Longrightarrow> b"
  by (auto simp: process_webhook_try_def split: sum.splits dest: dispatch_result)

lemma process_webhook_result: "process_webhook self payload signature = (Inr b, tr) \<Longrightarrow> b"
  by (auto simp: process_webhook_def verify_signature_expected
           split: sum.splits if_splits prod.splits dest: process_webhook_try_result)

lemma process_webhook_valid:
  assumes "verify_signature self payload signature = Inr True"
      and "parse_payload payload = Inr wp"
  shows "process_webhook self payload signature =
           (case dispatch self wp of
              (Inr b, tr) \<Rightarrow> (Inr b, tr)
            | (Inl e, tr) \<Rightarrow>
               (if isinstance e JSONDecodeError \<or> isinstance e KeyError \<or> isinstance e ValueError
                then (Inl (new_BitFlowError (u ''Invalid webhook payload: '' @ str_of e)
                             (Some (u ''INVALID_PAYLOAD'')) None), tr)
                else (Inl e, tr)))"
  using assms by (simp add: process_webhook_def process_webhook_try_def)

text \<open>
  C1. When \<open>verify_signature\<close> returns false, \<open>process_webhook\<close> raises a
  \<open>BitFlowError\<close> with the code \<open>INVALID_SIGNATURE\<close> and calls no callback, whatever is
  registered.
\<close>

theorem process_webhook_invalid_signature:
  assumes "verify_signature self payload signature = Inr False"
  shows "process_webhook self payload signature =
           (Inl (new_BitFlowError (u ''Invalid webhook signature'')
                   (Some (u ''INVALID_SIGNATURE'')) None), [])
         \<and> code (new_BitFlowError (u ''Invalid webhook signature'')
                   (Some (u ''INVALID_SIGNATURE'')) None) = Some (u ''INVALID_SIGNATURE'')"
  using assms by (simp add: process_webhook_def new_BitFlowError_def)

theorem process_webhook_invalid_signature_witness:
  "verify_signature (on_webhook (on_stream_created (init_handler test_secret) (returning 3))
                       (returning 2)) sample_body (PyStr (u ''invalid'')) = Inr False
   \<and> process_webhook (on_webhook (on_stream_created (init_handler test_secret) (returning 3))
                       (returning 2)) sample_body (PyStr (u ''invalid''))
     = (Inl (new_BitFlowError (u ''Invalid webhook signature'')
               (Some (u ''INVALID_SIGNATURE'')) None), [])"
proof -
  have "odd (length (u ''invalid''))" by (simp add: u_def)
  then have v: "verify_signature (on_webhook (on_stream_created (init_handler test_secret)
                   (returning 3)) (returning 2)) sample_body (PyStr (u ''invalid'')) = Inr False"
    by (rule verify_signature_odd)
  from process_webhook_invalid_signature [OF v] v show ?thesis by simp
qed

lemma dispatch_sample_returning:
  "dispatch (on_webhook (on_stream_created (init_handler test_secret) (returning 3))
               (returning 2)) sample_envelope
     = (Inr True, [(3, [Json (wp_data sample_envelope), Payload sample_envelope]),
                   (2, [Payload sample_envelope])])"
  by (simp add: dispatch_def dispatch_generic_def on_webhook_def on_stream_created_def
        on_event_def init_handler_def sample_envelope_def returning_def u_def)

lemma process_webhook_sample_returning:
  "process_webhook (on_webhook (on_stream_created (init_handler test_secret) (returning 3))
                      (returning 2)) sample_body (sign test_secret sample_body)
     = (Inr True, [(3, [Json (wp_data sample_envelope), Payload sample_envelope]),
                   (2, [Payload sample_envelope])])"
  by (simp add: process_webhook_valid [OF verify_sample parse_payload_sample]
        dispatch_sample_returning)

text \<open>
  C10. A call of \<open>process_webhook\<close> that returns, returns \<open>True\<close>; so the view of the
  Flask adapter does not depend on what its branch for a false result answers.
\<close>

theorem process_webhook_never_False:
  "(process_webhook self payload signature = (Inr b, tr) \<longrightarrow> b)
   \<and> handle_webhook_else r self req = flask_handler self req"
proof
  show "process_webhook self payload signature = (Inr b, tr) \<longrightarrow> b"
    by (auto dest: process_webhook_result)
next
  show "handle_webhook_else r self req = flask_handler self req"
    unfolding flask_handler_def handle_webhook_else_def
    by (auto split: option.splits prod.splits sum.splits dest: process_webhook_result)
qed

theorem process_webhook_never_False_witness:
  "process_webhook (on_webhook (on_stream_created (init_handler test_secret) (returning 3))
                      (returning 2)) sample_body (sign test_secret sample_body)
     = (Inr True, [(3, [Json (wp_data sample_envelope), Payload sample_envelope]),
                   (2, [Payload sample_envelope])])
   \<and> handle_webhook_else (ReceivedJson False, 0)
         (on_webhook (on_stream_created (init_handler test_secret) (returning 3)) (returning 2))
         \<lparr>signature_header = Some (u ''00''), body = u ''[]''\<rparr>
     = flask_handler
         (on_webhook (on_stream_created (init_handler test_secret) (returning 3)) (returning 2))
         \<lparr>signature_header = Some (u ''00''), body = u ''[]''\<rparr>"
  using process_webhook_sample_returning
    process_webhook_never_False [of
      "on_webhook (on_stream_created (init_handler test_secret) (returning 3)) (returning 2)"
      sample_body "sign test_secret sample_body" True
      "[(3, [Json (wp_data sample_envelope), Payload sample_envelope]),
        (2, [Payload sample_envelope])]"
      "(ReceivedJson False, 0)" "\<lparr>signature_header = Some (u ''00''), body = u ''[]''\<rparr>"]
  by simp

text \<open>
  C7. Registering a callback for an event replaces the one registered before, and the
  dispatch of that event then calls the second callback first, followed by nothing but
  the generic callback; registering for an event leaves the generic slot as it was, and
  registering the generic callback leaves the slot of every event as it was.
\<close>

theorem registration_last_wins:
  "on_event (on_event self ev h1) ev h2 = on_event self ev h2
   \<and> event_handlers (on_event (on_event self ev h1) ev h2) (event_value ev) = Some h2
   \<and> snd (dispatch (on_event (on_event self (wp_event wp) h1) (wp_event wp) h2) wp)
       = (cb_id h2, [Json (wp_data wp), Payload wp])
         # (case cb_call h2 [Json (wp_data wp), Payload wp] of
              Some e \<Rightarrow> []
            | None \<Rightarrow>
               (case event_handlers self (u ''webhook'') of
                  None \<Rightarrow> []
                | Some g \<Rightarrow> [(cb_id g, [Payload wp])]))
   \<and> event_handlers (on_event self ev h) (u ''webhook'') = event_handlers self (u ''webhook'')
   \<and> event_handlers (on_webhook self g) (event_value ev) = event_handlers self (event_value ev)"
proof -
  have a: "on_event (on_event self ev h1) ev h2 = on_event self ev h2" for ev
    by (simp add: on_event_def)
  have b: "event_handlers (on_event self ev h2) (event_value ev) = Some h2" for ev
    by (simp add: on_event_def)
  have c: "event_handlers (on_event self ev h) (u ''webhook'') = event_handlers self (u ''webhook'')"
    for ev h
    using event_value_neq_webhook [of ev] by (auto simp: on_event_def)
  have d: "event_handlers (on_webhook self g) (event_value ev) = event_handlers self (event_value ev)"
    using event_value_neq_webhook [of ev] by (auto simp: on_webhook_def)
  have e: "snd (dispatch (on_event self (wp_event wp) h2) wp)
       = (cb_id h2, [Json (wp_data wp), Payload wp])
         # (case cb_call h2 [Json (wp_data wp), Payload wp] of
              Some e \<Rightarrow> []
            | None \<Rightarrow>
               (case event_handlers self (u ''webhook'') of
                  None \<Rightarrow> []
                | Some g \<Rightarrow> [(cb_id g, [Payload wp])]))"
    unfolding dispatch_def dispatch_generic_def b c
    by (simp split: option.splits)
  show ?thesis unfolding a using b c d e by simp
qed

theorem registration_last_wins_witness:
  "snd (dispatch (on_event (on_event (on_webhook (init_handler test_secret) (returning 7))
                    STREAM_CREATED (returning 3)) STREAM_CREATED (returning 2)) sample_envelope)
     = [(2, [Json (wp_data sample_envelope), Payload sample_envelope]),
        (7, [Payload sample_envelope])]"
proof -
  have w: "wp_event sample_envelope = STREAM_CREATED" by (simp add: sample_envelope_def)
  have g: "event_handlers (on_webhook (init_handler test_secret) (returning 7)) (u ''webhook'')
             = Some (returning 7)"
    by (simp add: on_webhook_def)
  have t: "snd (dispatch (on_event (on_event (on_webhook (init_handler test_secret) (returning 7))
               (wp_event sample_envelope) (returning 3)) (wp_event sample_envelope) (returning 2))
               sample_envelope)
       = (cb_id (returning 2), [Json (wp_data sample_envelope), Payload sample_envelope])
         # (case cb_call (returning 2) [Json (wp_data sample_envelope), Payload sample_envelope] of
              Some e \<Rightarrow> []
            | None \<Rightarrow>
               (case event_handlers (on_webhook (init_handler test_secret) (returning 7))
                       (u ''webhook'') of
                  None \<Rightarrow> []
                | Some g \<Rightarrow> [(cb_id g, [Payload sample_envelope])]))"
    using registration_last_wins [of "on_webhook (init_handler test_secret) (returning 7)"
        STREAM_CREATED "returning 3" "returning 2" sample_envelope "returning 3" "returning 7"]
    by (elim conjE) assumption
  show ?thesis
    using t unfolding w g by (simp add: returning_def)
qed

lemma dispatch_generic_invoked:
  assumes "event_handlers self (u ''webhook'') = Some g"
  shows "snd (dispatch_generic self wp tr) = tr @ [(cb_id g, [Payload wp])]"
  using assms by (simp add: dispatch_generic_def split: option.splits)

lemma dispatch_generic_invoked_after:
  assumes "event_handlers self (u ''webhook'') = Some g"
      and "case event_handlers self (event_value (wp_event wp)) of
             None \<Rightarrow> True
           | Some h \<Rightarrow> cb_call h [Json (wp_data wp), Payload wp] = None"
  shows "\<exists>tr. snd (dispatch self wp) = tr @ [(cb_id g, [Payload wp])]"
  using assms
  by (auto simp: dispatch_def dispatch_generic_invoked split: option.splits)

lemma snd_process_webhook_valid:
  assumes "verify_signature self payload signature = Inr True"
      and "parse_payload payload = Inr wp"
  shows "snd (process_webhook self payload signature) = snd (dispatch self wp)"
  unfolding process_webhook_valid [OF assms]
  by (simp split: prod.splits sum.splits)

text \<open>
  C6, as the code has it. For a payload with a valid signature that parses to an
  envelope, a registered generic callback is called with the envelope, as the last
  call, whether or not a callback is registered for the event, provided that such a
  callback, if registered, returns without raising.
\<close>

theorem generic_callback_invoked:
  assumes "verify_signature self payload signature = Inr True"
      and "parse_payload payload = Inr wp"
      and "event_handlers self (u ''webhook'') = Some g"
      and "case event_handlers self (event_value (wp_event wp)) of
             None \<Rightarrow> True
           | Some h \<Rightarrow> cb_call h [Json (wp_data wp), Payload wp] = None"
  shows "(cb_id g, [Payload wp]) \<in> set (snd (process_webhook self payload signature))
         \<and> last (snd (process_webhook self payload signature)) = (cb_id g, [Payload wp])"
proof -
  from dispatch_generic_invoked_after [OF assms(3) assms(4)]
  obtain tr where "snd (dispatch self wp) = tr @ [(cb_id g, [Payload wp])]" ..
  then show ?thesis
    unfolding snd_process_webhook_valid [OF assms(1) assms(2)] by simp
qed

theorem generic_callback_invoked_witness:
  "(2, [Payload sample_envelope])
     \<in> set (snd (process_webhook
          (on_webhook (on_stream_created (init_handler test_secret) (returning 3)) (returning 2))
          sample_body (sign test_secret sample_body)))
   \<and> (2, [Payload sample_envelope])
     \<in> set (snd (process_webhook (on_webhook (init_handler test_secret) (returning 2))
          sample_body (sign test_secret sample_body)))"
proof -
  have g1: "event_handlers (on_webhook (on_stream_created (init_handler test_secret)
              (returning 3)) (returning 2)) (u ''webhook'') = Some (returning 2)"
    by (simp add: on_webhook_def)
  have h1: "case event_handlers (on_webhook (on_stream_created (init_handler test_secret)
              (returning 3)) (returning 2)) (event_value (wp_event sample_envelope)) of
             None \<Rightarrow> True
           | Some h \<Rightarrow> cb_call h [Json (wp_data sample_envelope), Payload sample_envelope] = None"
    by (simp add: on_webhook_def on_stream_created_def on_event_def init_handler_def
          sample_envelope_def returning_def u_def)
  have g2: "event_handlers (on_webhook (init_handler test_secret) (returning 2)) (u ''webhook'')
              = Some (returning 2)"
    by (simp add: on_webhook_def)
  have h2: "case event_handlers (on_webhook (init_handler test_secret) (returning 2))
                  (event_value (wp_event sample_envelope)) of
             None \<Rightarrow> True
           | Some h \<Rightarrow> cb_call h [Json (wp_data sample_envelope), Payload sample_envelope] = None"
    by (simp add: on_webhook_def init_handler_def sample_envelope_def u_def)
  have i: "cb_id (returning 2) = 2" by (simp add: returning_def)
  show ?thesis
    using generic_callback_invoked [OF verify_sample parse_payload_sample g1 h1]
      generic_callback_invoked [OF verify_sample parse_payload_sample g2 h2]
    unfolding i by simp
qed

text \<open>
  C6 as stated fails: the callback of the event raises, the exception leaves
  \<open>process_webhook\<close>, and the registered generic callback is not called.
\<close>

theorem generic_callback_skipped_counterexample:
  "verify_signature
      (on_webhook (on_stream_created (init_handler test_secret)
         (raising 3 (PyExc RuntimeError (u ''boom'')))) (returning 2))
      sample_body (sign test_secret sample_body) = Inr True
   \<and> parse_payload sample_body = Inr sample_envelope
   \<and> event_handlers
        (on_webhook (on_stream_created (init_handler test_secret)
           (raising 3 (PyExc RuntimeError (u ''boom'')))) (returning 2))
        (u ''webhook'') = Some (returning 2)
   \<and> process_webhook
        (on_webhook (on_stream_created (init_handler test_secret)
           (raising 3 (PyExc RuntimeError (u ''boom'')))) (returning 2))
        sample_body (sign test_secret sample_body)
       = (Inl (PyExc RuntimeError (u ''boom'')),
          [(3, [Json (wp_data sample_envelope), Payload sample_envelope])])
   \<and> (cb_id (returning 2), [Payload sample_envelope])
       \<notin> set (snd (process_webhook
            (on_webhook (on_stream_created (init_handler test_secret)
               (raising 3 (PyExc RuntimeError (u ''boom'')))) (returning 2))
            sample_body (sign test_secret sample_body)))"
proof -
  have d: "dispatch (on_webhook (on_stream_created (init_handler test_secret)
              (raising 3 (PyExc RuntimeError (u ''boom'')))) (returning 2)) sample_envelope
           = (Inl (PyExc RuntimeError (u ''boom'')),
              [(3, [Json (wp_data sample_envelope), Payload sample_envelope])])"
    by (simp add: dispatch_def on_webhook_def on_stream_created_def
          on_event_def init_handler_def sample_envelope_def raising_def u_def)
  have p: "process_webhook
        (on_webhook (on_stream_created (init_handler test_secret)
           (raising 3 (PyExc RuntimeError (u ''boom'')))) (returning 2))
        sample_body (sign test_secret sample_body)
       = (Inl (PyExc RuntimeError (u ''boom'')),
          [(3, [Json (wp_data sample_envelope), Payload sample_envelope])])"
    by (simp add: process_webhook_valid [OF verify_sample parse_payload_sample] d
          isinstance_def)
  show ?thesis
    unfolding p by (simp add: verify_sample parse_payload_sample on_webhook_def returning_def)
qed

lemma callback_exception_propagates:
  assumes "verify_signature self payload signature = Inr True"
      and "parse_payload payload = Inr wp"
      and "fst (dispatch self wp) = Inl e"
      and "\<not> isinstance e KeyError" and "\<not> isinstance e ValueError"
  shows "fst (process_webhook self payload signature) = Inl e"
proof -
  have "isinstance e JSONDecodeError \<Longrightarrow> isinstance e ValueError"
    unfolding isinstance_def by (cases "class_of e") simp_all
  with assms(5) have "\<not> isinstance e JSONDecodeError" by blast
  with assms show ?thesis
    unfolding process_webhook_valid [OF assms(1) assms(2)]
    by (cases "dispatch self wp") (simp split: sum.splits)
qed

text \<open>
  C3. The callbacks are called inside the \<open>try\<close> block whose handler catches
  \<open>JSONDecodeError\<close>, \<open>KeyError\<close> and \<open>ValueError\<close>. An exception of a callback that is
  of none of these classes leaves \<open>process_webhook\<close> unchanged; a \<open>KeyError\<close> or
  \<open>ValueError\<close> of a callback is replaced by the error \<open>INVALID_PAYLOAD\<close>.
\<close>

theorem callback_KeyError_converted:
  "process_webhook
     (on_stream_created (init_handler test_secret)
        (raising 3 (PyExc KeyError (quoted (u ''streamId'')))))
     sample_body (sign test_secret sample_body)
   = (Inl (new_BitFlowError (u ''Invalid webhook payload: '' @ quoted (u ''streamId''))
             (Some (u ''INVALID_PAYLOAD'')) None),
      [(3, [Json (wp_data sample_envelope), Payload sample_envelope])])"
proof -
  have d: "dispatch (on_stream_created (init_handler test_secret)
              (raising 3 (PyExc KeyError (quoted (u ''streamId''))))) sample_envelope
           = (Inl (PyExc KeyError (quoted (u ''streamId''))),
              [(3, [Json (wp_data sample_envelope), Payload sample_envelope])])"
    by (simp add: dispatch_def on_stream_created_def
          on_event_def init_handler_def sample_envelope_def raising_def)
  show ?thesis
    by (simp add: process_webhook_valid [OF verify_sample parse_payload_sample] d
          isinstance_def)
qed

lemma process_webhook_invalid_payload:
  assumes "verify_signature self payload signature = Inr True"
      and "parse_payload payload = Inl e"
      and "isinstance e KeyError \<or> isinstance e ValueError"
  shows "process_webhook self payload signature =
           (Inl (new_BitFlowError (u ''Invalid webhook payload: '' @ str_of e)
                   (Some (u ''INVALID_PAYLOAD'')) None), [])"
  using assms by (auto simp: process_webhook_def process_webhook_try_def)

lemma process_webhook_unparsable:
  assumes "verify_signature self payload signature = Inr True"
      and "json_loads payload = Inl e"
  shows "process_webhook self payload signature =
           (Inl (new_BitFlowError (u ''Invalid webhook payload: '' @ str_of e)
                   (Some (u ''INVALID_PAYLOAD'')) None), [])"
proof -
  from assms(1) obtain s where p: "payload = PyStr s"
    by (cases payload)
       (auto simp: verify_signature_expected expected_signature_def split: sum.splits)
  have "class_of e = JSONDecodeError"
    by (rule json_loads_str_error [OF assms(2) [unfolded p]])
  then have "isinstance e ValueError" by (simp add: isinstance_def)
  moreover from assms(2) have "parse_payload payload = Inl e" by (simp add: parse_payload_def)
  ultimately show ?thesis using assms(1) by (simp add: process_webhook_invalid_payload)
qed

lemma getitem_object_error:
  "getitem (JObj d) k = Inl e \<Longrightarrow> isinstance e KeyError"
  by (auto simp: isinstance_def split: option.splits)

lemma new_WebhookEvent_error: "new_WebhookEvent v = Inl e \<Longrightarrow> isinstance e ValueError"
  by (cases v) (auto simp: isinstance_def split: option.splits)

lemma new_WebhookEvent_unknown:
  "s \<notin> event_value ` set all_events \<Longrightarrow> \<exists>e. new_WebhookEvent (JStr s) = Inl e"
  by (auto simp: find_None_iff split: option.splits)

lemma parse_payload_object_error:
  assumes "json_loads payload = Inr (JObj d)" and "parse_payload payload = Inl e"
  shows "isinstance e KeyError \<or> isinstance e ValueError"
  using assms unfolding parse_payload_def
  by (auto split: sum.splits dest: getitem_object_error new_WebhookEvent_error
           simp del: getitem.simps new_WebhookEvent.simps)

lemma parse_payload_unknown_event:
  assumes "json_loads payload = Inr (JObj d)"
      and "map_of d (u ''event'') = Some (JStr s)"
      and "s \<notin> event_value ` set all_events"
  shows "\<exists>e. parse_payload payload = Inl e"
proof -
  from new_WebhookEvent_unknown [OF assms(3)]
  obtain e where "new_WebhookEvent (JStr s) = Inl e" ..
  with assms(1,2) show ?thesis
    unfolding parse_payload_def by (auto split: option.splits)
qed

lemma process_webhook_object_rejected:
  assumes "verify_signature self payload signature = Inr True"
      and "json_loads payload = Inr (JObj d)"
      and "parse_payload payload = Inl e"
  shows "process_webhook self payload signature =
           (Inl (new_BitFlowError (u ''Invalid webhook payload: '' @ str_of e)
                   (Some (u ''INVALID_PAYLOAD'')) None), [])"
  using process_webhook_invalid_payload [OF assms(1) assms(3)]
    parse_payload_object_error [OF assms(2) assms(3)] by simp

lemma json_loads_empty_array: "json_loads (PyStr (u ''[]'')) = Inr (JArr [])"
  by (simp add: u_def decode_def starts_with_def is_ws_def)

text \<open>
  C5. A body that does not parse, or an object that lacks a field or names an unknown
  event, gives the error \<open>INVALID_PAYLOAD\<close> with no callback called. A body that is
  JSON but not an object raises \<open>TypeError\<close> at \<open>webhook_data["id"]\<close>, which the
  handler of the \<open>try\<close> block does not catch.
\<close>

theorem array_body_TypeError:
  "process_webhook (on_webhook (init_handler test_secret) (returning 2))
     (PyStr (u ''[]'')) (sign test_secret (PyStr (u ''[]'')))
   = (Inl (PyExc TypeError (u ''list indices must be integers or slices, not str'')), [])"
proof -
  have "str_encode test_secret = Inr (u ''test-secret'')"
    unfolding test_secret_def str_encode.simps
    by (rule encode_utf8_ascii) (simp add: is_ascii_def u_def)
  moreover have "str_encode (PyStr (u ''[]'')) = Inr (u ''[]'')"
    unfolding str_encode.simps by (rule encode_utf8_ascii) (simp add: is_ascii_def u_def)
  ultimately have "expected_signature
      (secret (on_webhook (init_handler test_secret) (returning 2))) (PyStr (u ''[]''))
        = Some (hexdigest (hmac_sha256 (u ''test-secret'') (u ''[]'')))"
    by (simp add: expected_signature_def)
  from verify_signature_sign [OF this]
  have v: "verify_signature (on_webhook (init_handler test_secret) (returning 2))
             (PyStr (u ''[]'')) (sign test_secret (PyStr (u ''[]''))) = Inr True"
    by simp
  have p: "parse_payload (PyStr (u ''[]''))
             = Inl (PyExc TypeError (u ''list indices must be integers or slices, not str''))"
    unfolding parse_payload_def json_loads_empty_array by simp
  show ?thesis
    unfolding process_webhook_def v process_webhook_try_def p
    by (simp add: isinstance_def)
qed

section \<open>Properties of the API client\<close>

lemma get_streams_params_unset:
  "get_streams_params None = []"
  "get_streams_params (Some \<lparr>limit = None, offset = None, status = None\<rparr>) = []"
  "get_streams_params (Some \<lparr>limit = Some 10, offset = None, status = None\<rparr>)
     = [(u ''limit'', PInt 10)]"
  by (simp_all add: get_streams_params_def)

lemma get_streams_params_nonzero:
  assumes "l \<noteq> 0" and "off \<noteq> 0"
  shows "get_streams_params (Some \<lparr>limit = Some l, offset = Some off, status = Some st\<rparr>)
     = [(u ''status'', PStr (status_value st)), (u ''limit'', PInt l), (u ''offset'', PInt off)]"
  using assms by (cases st) (simp_all add: get_streams_params_def u_def)

text \<open>
  C4. With the filters \<open>status = ACTIVE\<close>, \<open>limit = 10\<close>, \<open>offset = 0\<close> the parameters
  built by \<open>get_streams\<close> are \<open>status\<close> and \<open>limit\<close> only: \<open>if filters.offset\<close> is
  false for 0, and the query is \<open>status=active&limit=10\<close>.
\<close>

theorem get_streams_offset_zero_omitted:
  "get_streams_params (Some \<lparr>limit = Some 10, offset = Some 0, status = Some ACTIVE\<rparr>)
     = [(u ''status'', PStr (u ''active'')), (u ''limit'', PInt 10)]
   \<and> query_string
        (get_streams_params (Some \<lparr>limit = Some 10, offset = Some 0, status = Some ACTIVE\<rparr>))
     = u ''status=active&limit=10''"
proof -
  have a: "get_streams_params (Some \<lparr>limit = Some 10, offset = Some 0, status = Some ACTIVE\<rparr>)
     = [(u ''status'', PStr (u ''active'')), (u ''limit'', PInt 10)]"
    by (simp add: get_streams_params_def u_def)
  have b: "str_int 10 = u ''10''"
    by (simp add: str_int_def u_def)
  show ?thesis unfolding a by (simp add: b) (simp add: u_def)
qed

lemma rate_limit_header:
  assumes "status_code r = 429"
      and "headers_get r (u ''Retry-After'') = Some v" and "v \<noteq> []" and "py_int v = Inr n"
  shows "request (Response r) = Inl (new_RateLimitError (u ''Rate limit exceeded'') (Some n))"
  using assms
  by (simp add: request_def handle_status_def new_RateLimitError_def isinstance_def)

lemma rate_limit_no_header:
  assumes "status_code r = 429" and "headers_get r (u ''Retry-After'') = None"
  shows "request (Response r) = Inl (new_RateLimitError (u ''Rate limit exceeded'') None)"
  using assms
  by (simp add: request_def handle_status_def new_RateLimitError_def isinstance_def)

lemma py_int_30: "py_int (u ''30'') = Inr 30"
  by (simp add: py_int_def strip_def u_def is_space_def is_digit_def digits_value_def)

lemma rate_limit_retry_after_30:
  assumes "status_code r = 429" and "headers_get r (u ''Retry-After'') = Some (u ''30'')"
  shows "request (Response r) = Inl (new_RateLimitError (u ''Rate limit exceeded'') (Some 30))"
  by (rule rate_limit_header [OF assms _ py_int_30]) (simp add: u_def)

text \<open>
  C9. A response 429 with \<open>Retry-After: 30\<close> raises a \<open>RateLimitError\<close> with
  \<open>retry_after = 30\<close>, and one without the header raises it with \<open>retry_after = None\<close>.
  A response 429 whose \<open>Retry-After\<close> is a date, which HTTP allows, raises the
  \<open>ValueError\<close> of \<open>int()\<close> instead.
\<close>

theorem rate_limit_http_date_ValueError:
  "request (Response \<lparr>status_code = 429,
                       headers = [lower (u ''Retry-After'') \<mapsto> u ''Wed, 21 Oct 2015 07:28:00 GMT''],
                       json_result = Inr JNull\<rparr>)
   = Inl (PyExc ValueError (u ''invalid literal for int() with base 10''))"
proof -
  have "py_int (u ''Wed, 21 Oct 2015 07:28:00 GMT'')
          = Inl (PyExc ValueError (u ''invalid literal for int() with base 10''))"
    by (simp add: py_int_def strip_def u_def is_space_def is_digit_def)
  moreover have "u ''Wed, 21 Oct 2015 07:28:00 GMT'' \<noteq> []" by (simp add: u_def)
  ultimately show ?thesis
    by (simp add: request_def handle_status_def headers_get_def isinstance_def)
qed

end
